theory Spec2Isabelle
  imports Main "HOL-Library.AList"
begin

section \<open>Strings, bytes and the stream framer of \<open>submitQuery\<close>\<close>

text \<open>
  The streaming client is the function \<open>submitQuery\<close> of the \<open>ApiProvider\<close> component.
  A JavaScript string is a sequence of UTF-16 code units, modelled as a list of naturals;
  a byte of a response chunk (\<open>Uint8Array\<close>) is a \<^typ>\<open>char\<close>, HOL's type of 8-bit
  characters, so that a chunk is a \<^typ>\<open>string\<close>.
\<close>

type_synonym jsstring = "nat list"

type_synonym chunk = "char list"

definition lit :: "string \<Rightarrow> jsstring" where
  "lit s = map of_char s"

subsection \<open>\<open>new TextDecoder()\<close> and \<open>decoder.decode(value, { stream: true })\<close>\<close>

text \<open>
  The decoder is the platform's: the UTF-8 decoder of the Encoding standard, a state machine
  that consumes one byte at a time and keeps the code point under construction, the number
  of continuation bytes seen and needed, and the bounds of the next continuation byte. With
  \<open>stream: true\<close> this state survives from one call of \<open>decode\<close> to the next, and the
  end of a chunk never flushes it. A malformed sequence yields U+FFFD (the decoder is not
  \<open>fatal\<close>), and the byte that broke the sequence is read again from the initial state.
\<close>

record utf8_state =
  code_point :: nat
  bytes_seen :: nat
  bytes_needed :: nat
  lower_boundary :: nat
  upper_boundary :: nat

definition utf8_initial :: utf8_state where
  "utf8_initial =
     \<lparr>code_point = 0, bytes_seen = 0, bytes_needed = 0,
      lower_boundary = 0x80, upper_boundary = 0xBF\<rparr>"

definition utf8_lead :: "nat \<Rightarrow> utf8_state \<times> nat list" where
  "utf8_lead b =
     (if b \<le> 0x7F then (utf8_initial, [b])
      else if 0xC2 \<le> b \<and> b \<le> 0xDF then
        (utf8_initial\<lparr>bytes_needed := 1, code_point := b mod 0x20\<rparr>, [])
      else if 0xE0 \<le> b \<and> b \<le> 0xEF then
        (utf8_initial\<lparr>lower_boundary := (if b = 0xE0 then 0xA0 else 0x80),
                      upper_boundary := (if b = 0xED then 0x9F else 0xBF),
                      bytes_needed := 2, code_point := b mod 0x10\<rparr>, [])
      else if 0xF0 \<le> b \<and> b \<le> 0xF4 then
        (utf8_initial\<lparr>lower_boundary := (if b = 0xF0 then 0x90 else 0x80),
                      upper_boundary := (if b = 0xF4 then 0x8F else 0xBF),
                      bytes_needed := 3, code_point := b mod 0x08\<rparr>, [])
      else (utf8_initial, [0xFFFD]))"

definition utf8_handler :: "utf8_state \<Rightarrow> nat \<Rightarrow> utf8_state \<times> nat list" where
  "utf8_handler st b =
     (if bytes_needed st = 0 then utf8_lead b
      else if b < lower_boundary st \<or> upper_boundary st < b then
        (fst (utf8_lead b), 0xFFFD # snd (utf8_lead b))
      else
        (let cp = code_point st * 0x40 + b mod 0x40 in
         if bytes_seen st + 1 \<noteq> bytes_needed st then
           (st\<lparr>lower_boundary := 0x80, upper_boundary := 0xBF,
               code_point := cp, bytes_seen := bytes_seen st + 1\<rparr>, [])
         else (utf8_initial, [cp])))"

fun utf8_run :: "utf8_state \<Rightarrow> chunk \<Rightarrow> utf8_state \<times> nat list" where
  "utf8_run st [] = (st, [])"
| "utf8_run st (b # bs) =
     (case utf8_handler st (of_char b) of
        (st', out) \<Rightarrow>
          (case utf8_run st' bs of (st'', out') \<Rightarrow> (st'', out @ out')))"

text \<open>
  The decoded scalar values are written out as UTF-16 code units. A \<open>TextDecoder\<close> made
  without options drops one byte order mark, U+FEFF, when it is the first scalar value of
  the stream.
\<close>

definition utf16 :: "nat \<Rightarrow> jsstring" where
  "utf16 c =
     (if c < 0x10000 then [c]
      else [0xD800 + (c - 0x10000) div 0x400, 0xDC00 + (c - 0x10000) mod 0x400])"

fun serialize :: "bool \<Rightarrow> nat list \<Rightarrow> bool \<times> jsstring" where
  "serialize seen [] = (seen, [])"
| "serialize seen (c # cs) =
     (if \<not> seen \<and> c = 0xFEFF then serialize True cs
      else (True, utf16 c @ snd (serialize True cs)))"

record text_decoder =
  utf8 :: utf8_state
  bom_seen :: bool

definition new_TextDecoder :: text_decoder where
  "new_TextDecoder = \<lparr>utf8 = utf8_initial, bom_seen = False\<rparr>"

definition decode :: "text_decoder \<Rightarrow> chunk \<Rightarrow> text_decoder \<times> jsstring" where
  "decode d c =
     (case utf8_run (utf8 d) c of
        (u, scalars) \<Rightarrow>
          (case serialize (bom_seen d) scalars of
             (seen, text) \<Rightarrow> (\<lparr>utf8 = u, bom_seen = seen\<rparr>, text)))"

subsection \<open>The line buffer\<close>

text \<open>
  \<open>buffer.split('\n')\<close> always returns at least one segment; \<open>lines.pop() || ''\<close> takes
  the last one as the new buffer. \<open>line.trim()\<close> is empty exactly when every code unit
  of the line is white space or a line terminator of ECMAScript.
\<close>

fun split_nl :: "jsstring \<Rightarrow> jsstring list" where
  "split_nl [] = [[]]"
| "split_nl (c # cs) =
     (if c = 0x0A then [] # split_nl cs
      else (case split_nl cs of
              [] \<Rightarrow> [[c]]
            | seg # segs \<Rightarrow> (c # seg) # segs))"

definition pop_last :: "jsstring list \<Rightarrow> jsstring list \<times> jsstring" where
  "pop_last segs = (if segs = [] then ([], []) else (butlast segs, last segs))"

definition is_space :: "nat \<Rightarrow> bool" where
  "is_space c \<longleftrightarrow>
     c = 0x09 \<or> c = 0x0A \<or> c = 0x0B \<or> c = 0x0C \<or> c = 0x0D \<or> c = 0x20 \<or>
     c = 0xA0 \<or> c = 0x1680 \<or> (0x2000 \<le> c \<and> c \<le> 0x200A) \<or> c = 0x2028 \<or>
     c = 0x2029 \<or> c = 0x202F \<or> c = 0x205F \<or> c = 0x3000 \<or> c = 0xFEFF"

definition blank :: "jsstring \<Rightarrow> bool" where
  "blank l = list_all is_space l"

record framer =
  decoder :: text_decoder
  buffer :: jsstring

definition new_framer :: framer where
  "new_framer = \<lparr>decoder = new_TextDecoder, buffer = []\<rparr>"

definition frame :: "framer \<Rightarrow> chunk \<Rightarrow> jsstring list \<times> framer" where
  "frame f c =
     (case decode (decoder f) c of
        (d, text) \<Rightarrow>
          (case pop_last (split_nl (buffer f @ text)) of
             (lines, rest) \<Rightarrow> (lines, \<lparr>decoder = d, buffer = rest\<rparr>)))"

fun frame_all :: "framer \<Rightarrow> chunk list \<Rightarrow> jsstring list \<times> framer" where
  "frame_all f [] = ([], f)"
| "frame_all f (c # cs) =
     (case frame f c of
        (ls, f') \<Rightarrow> (case frame_all f' cs of (ls', f'') \<Rightarrow> (ls @ ls', f'')))"

definition emitted_lines :: "chunk list \<Rightarrow> jsstring list \<times> jsstring option" where
  "emitted_lines cs =
     (case frame_all new_framer cs of
        (lines, f) \<Rightarrow>
          (filter (\<lambda>l. \<not> blank l) lines,
           if blank (buffer f) then None else Some (buffer f)))"

section \<open>Values, exceptions and the outcomes of the model\<close>

text \<open>
  A value read from the stream is what \<open>JSON.parse\<close> returns. Numbers are modelled as
  integers: number literals with a fraction or an exponent are outside the model. An object
  is the list of its own properties; the order of the properties is never observed by
  \<open>submitQuery\<close>. A JavaScript value that may be \<open>undefined\<close> is a \<open>json option\<close>,
  with \<^term>\<open>None\<close> for \<open>undefined\<close>.
\<close>

datatype json =
    JNull
  | JBool bool
  | JNum int
  | JStr jsstring
  | JArr "json list"
  | JObj "(jsstring \<times> json) list"

type_synonym jsval = "json option"

datatype js_error = JsError (error_name: jsstring) (error_message: jsstring)

text \<open>
  An exception of JavaScript is a value: code that may throw returns \<^typ>\<open>js_error + 'a\<close>.
  Two further outcomes cannot be caught by \<open>submitQuery\<close>. First, a functional updater
  passed to \<open>setCurrentQuery\<close> is run by React when it renders, outside the \<open>try\<close> blocks
  of \<open>submitQuery\<close>: a \<open>TypeError\<close> raised inside an updater takes the component down
  (\<open>Render_crash\<close>). Second, where the behaviour of the platform is not modelled (a number
  beyond the safe integers turned into a string, a property key that names a member of
  \<open>Object.prototype\<close>), the model says so (\<open>Unmodelled\<close>) and states nothing.
\<close>

datatype 'a outcome = Returns 'a | Render_crash | Unmodelled

definition and_then :: "'a outcome \<Rightarrow> ('a \<Rightarrow> 'b outcome) \<Rightarrow> 'b outcome" where
  "and_then m f = (case m of Returns x \<Rightarrow> f x | Render_crash \<Rightarrow> Render_crash | Unmodelled \<Rightarrow> Unmodelled)"

type_synonym parser = "jsstring \<Rightarrow> js_error + json"

definition null_read :: "string \<Rightarrow> js_error" where
  "null_read p =
     JsError (lit ''TypeError'')
       (lit ''Cannot read properties of null (reading '' @ [0x27] @ lit p @ [0x27] @ lit '')'')"

definition describe :: "js_error \<Rightarrow> jsstring" where
  "describe e = (if error_message e \<noteq> [] then error_message e else error_name e)"

definition read_prop :: "json \<Rightarrow> string \<Rightarrow> jsval" where
  "read_prop v k = (case v of JObj kvs \<Rightarrow> map_of kvs (lit k) | _ \<Rightarrow> None)"

definition truthy :: "jsval \<Rightarrow> bool" where
  "truthy v =
     (case v of
        None \<Rightarrow> False
      | Some JNull \<Rightarrow> False
      | Some (JBool b) \<Rightarrow> b
      | Some (JNum n) \<Rightarrow> n \<noteq> 0
      | Some (JStr s) \<Rightarrow> s \<noteq> []
      | Some (JArr xs) \<Rightarrow> True
      | Some (JObj kvs) \<Rightarrow> True)"

definition nullish :: "jsval \<Rightarrow> bool" where
  "nullish v \<longleftrightarrow> v = None \<or> v = Some JNull"

definition coalesce :: "jsval \<Rightarrow> jsval \<Rightarrow> jsval" where
  "coalesce a b = (if nullish a then b else a)"

definition or_else :: "jsval \<Rightarrow> json \<Rightarrow> json" where
  "or_else v d = (case v of None \<Rightarrow> d | Some x \<Rightarrow> if truthy v then x else d)"

function decimal :: "nat \<Rightarrow> jsstring" where
  "decimal n = (if n < 10 then [0x30 + n] else decimal (n div 10) @ [0x30 + n mod 10])"
  by pat_completeness auto
termination
  by (relation "measure id") auto

declare decimal.simps [simp del]

definition ToString :: "json \<Rightarrow> jsstring outcome" where
  "ToString v =
     (case v of
        JNull \<Rightarrow> Returns (lit ''null'')
      | JBool b \<Rightarrow> Returns (if b then lit ''true'' else lit ''false'')
      | JNum n \<Rightarrow>
          if \<bar>n\<bar> \<le> 2 ^ 53
          then Returns ((if n < 0 then [0x2D] else []) @ decimal (nat \<bar>n\<bar>))
          else Unmodelled
      | JStr s \<Rightarrow> Returns s
      | JArr xs \<Rightarrow> Unmodelled
      | JObj kvs \<Rightarrow> Returns (lit ''[object Object]''))"

definition prototype_names :: "jsstring list" where
  "prototype_names =
     map lit [''__proto__'', ''constructor'', ''hasOwnProperty'', ''isPrototypeOf'',
       ''propertyIsEnumerable'', ''toLocaleString'', ''toString'', ''valueOf'',
       ''__defineGetter__'', ''__defineSetter__'', ''__lookupGetter__'', ''__lookupSetter__'']"

definition property_key :: "jsval \<Rightarrow> jsstring outcome" where
  "property_key v =
     and_then (case v of None \<Rightarrow> Returns (lit ''undefined'') | Some x \<Rightarrow> ToString x)
       (\<lambda>k. if k \<in> set prototype_names then Unmodelled else Returns k)"

definition own_properties :: "json \<Rightarrow> (jsstring \<times> json) list" where
  "own_properties v =
     (case v of
        JObj kvs \<Rightarrow> kvs
      | JArr xs \<Rightarrow> zip (map decimal [0..<length xs]) xs
      | JStr s \<Rightarrow> zip (map decimal [0..<length s]) (map (\<lambda>u. JStr [u]) s)
      | _ \<Rightarrow> [])"

section \<open>The state of the provider and the query result\<close>

record QueryResult =
  question :: jsval
  documents :: jsval
  answer :: jsval
  structured_answer :: jsval
  streamError :: jsval
  requestedK :: jsval
  effectiveK :: jsval

record session =
  isLoading :: bool
  error :: jsval
  isResourcesLoaded :: bool
  currentQuery :: "QueryResult option"
  numDocs :: int

definition initial_query :: "jsval \<Rightarrow> QueryResult" where
  "initial_query q =
     \<lparr>question = q, documents = Some (JArr []), answer = Some JNull,
      structured_answer = Some JNull, streamError = Some JNull,
      requestedK = Some JNull, effectiveK = Some JNull\<rparr>"

definition spread :: "QueryResult option \<Rightarrow> QueryResult" where
  "spread prev =
     (case prev of
        None \<Rightarrow>
          \<lparr>question = None, documents = None, answer = None, structured_answer = None,
           streamError = None, requestedK = None, effectiveK = None\<rparr>
      | Some q \<Rightarrow> q)"

definition setCurrentQuery ::
  "(QueryResult option \<Rightarrow> QueryResult outcome) \<Rightarrow> session \<Rightarrow> session outcome" where
  "setCurrentQuery upd s =
     and_then (upd (currentQuery s)) (\<lambda>q. Returns (s\<lparr>currentQuery := Some q\<rparr>))"

definition with_streamError :: "jsval \<Rightarrow> QueryResult option \<Rightarrow> QueryResult" where
  "with_streamError m prev = (spread prev)\<lparr>streamError := m\<rparr>"

definition record_error :: "jsval \<Rightarrow> session \<Rightarrow> session" where
  "record_error m s = s\<lparr>error := m, currentQuery := Some (with_streamError m (currentQuery s))\<rparr>"

section \<open>Decoding one line\<close>

text \<open>
  \<open>JSON.parse\<close> is the platform's and is a parameter of the model: a function from a
  string to a value or to the \<open>SyntaxError\<close> it throws. The decoder of \<open>submitQuery\<close>
  parses the line; when that throws and the line starts and ends with a double quote, it
  parses the line again and then parses the result, turned into a string if it is not one.
\<close>

definition starts_with_quote :: "jsstring \<Rightarrow> bool" where
  "starts_with_quote l = (case l of [] \<Rightarrow> False | c # cs \<Rightarrow> c = 0x22)"

definition ends_with_quote :: "jsstring \<Rightarrow> bool" where
  "ends_with_quote l = (l \<noteq> [] \<and> last l = 0x22)"

definition decode_line :: "parser \<Rightarrow> jsstring \<Rightarrow> (js_error + json) outcome" where
  "decode_line P line =
     (case P line of
        Inr data \<Rightarrow> Returns (Inr data)
      | Inl e \<Rightarrow>
          if starts_with_quote line \<and> ends_with_quote line then
            (case P line of
               Inl e' \<Rightarrow> Returns (Inl e')
             | Inr unescaped \<Rightarrow> and_then (ToString unescaped) (\<lambda>t. Returns (P t)))
          else Returns (Inl e))"

section \<open>The updates of the query result\<close>

definition upd_documents :: "json \<Rightarrow> QueryResult option \<Rightarrow> QueryResult" where
  "upd_documents data prev =
     (spread prev)
       \<lparr>documents := read_prop data ''data'',
        requestedK :=
          coalesce (coalesce (read_prop data ''requested_k'') (requestedK (spread prev)))
            (Some JNull),
        effectiveK :=
          coalesce (coalesce (read_prop data ''effective_k'') (effectiveK (spread prev)))
            (Some JNull)\<rparr>"

fun build_highlightMap ::
  "json list \<Rightarrow> (jsstring \<times> json) list \<Rightarrow> (jsstring \<times> json) list outcome" where
  "build_highlightMap [] m = Returns m"
| "build_highlightMap (doc # docs) m =
     (if doc = JNull then Render_crash
      else and_then (property_key (read_prop doc ''content''))
             (\<lambda>k. build_highlightMap docs
                    ((k, or_else (read_prop doc ''highlights'') (JArr [])) # m)))"

fun attach_highlights :: "(jsstring \<times> json) list \<Rightarrow> json list \<Rightarrow> json list outcome" where
  "attach_highlights m [] = Returns []"
| "attach_highlights m (doc # docs) =
     (if doc = JNull then Render_crash
      else and_then (property_key (read_prop doc ''content''))
             (\<lambda>k. and_then (attach_highlights m docs)
                    (\<lambda>rest. Returns
                       (JObj (AList.update (lit ''highlights'') (or_else (map_of m k) (JArr []))
                                (own_properties doc)) # rest))))"

definition prev_documents :: "QueryResult option \<Rightarrow> json list outcome" where
  "prev_documents prev =
     (case prev of
        None \<Rightarrow> Render_crash
      | Some q \<Rightarrow>
          (case documents q of
             Some (JArr docs) \<Rightarrow> Returns docs
           | _ \<Rightarrow> Render_crash))"

definition upd_highlights :: "json \<Rightarrow> QueryResult option \<Rightarrow> QueryResult outcome" where
  "upd_highlights data prev =
     (case read_prop data ''data'' of
        Some (JArr hs) \<Rightarrow>
          and_then (build_highlightMap hs [])
            (\<lambda>highlightMap.
               and_then (prev_documents prev)
                 (\<lambda>docs.
                    and_then (attach_highlights highlightMap docs)
                      (\<lambda>updatedDocs. Returns
                         ((spread prev)
                            \<lparr>documents := Some (JArr updatedDocs),
                             requestedK :=
                               coalesce
                                 (coalesce (read_prop data ''requested_k'')
                                    (requestedK (spread prev)))
                                 (Some JNull),
                             effectiveK :=
                               coalesce
                                 (coalesce (read_prop data ''effective_k'')
                                    (effectiveK (spread prev)))
                                 (Some JNull)\<rparr>))))
      | _ \<Rightarrow> Render_crash)"

definition upd_answer :: "json \<Rightarrow> QueryResult option \<Rightarrow> QueryResult outcome" where
  "upd_answer data prev =
     (case read_prop data ''data'' of
        None \<Rightarrow> Render_crash
      | Some d \<Rightarrow>
          if d = JNull then Render_crash
          else Returns ((spread prev)
                 \<lparr>answer := read_prop d ''answer'',
                  structured_answer := read_prop d ''structured_answer''\<rparr>))"

section \<open>One decoded value, one line, the lines of a chunk\<close>

definition handle_data :: "json \<Rightarrow> session \<Rightarrow> (js_error + session) outcome" where
  "handle_data data s =
     (if data = JNull then Returns (Inl (null_read ''error''))
      else if truthy (read_prop data ''error'') then
        Returns (Inr ((record_error (read_prop data ''error'') s)\<lparr>isLoading := False\<rparr>))
      else if read_prop data ''type'' = Some (JStr (lit ''documents'')) then
        and_then (setCurrentQuery (\<lambda>prev. Returns (upd_documents data prev)) s)
          (\<lambda>s'. Returns (Inr s'))
      else if read_prop data ''type'' = Some (JStr (lit ''highlights'')) then
        and_then (setCurrentQuery (upd_highlights data) s) (\<lambda>s'. Returns (Inr s'))
      else if read_prop data ''type'' = Some (JStr (lit ''answer'')) then
        and_then (setCurrentQuery (upd_answer data) s)
          (\<lambda>s'. Returns (Inr (if truthy (read_prop data ''done'')
                               then s'\<lparr>isLoading := False\<rparr> else s')))
      else Returns (Inr s))"

definition parse_failed :: "string \<Rightarrow> js_error \<Rightarrow> session \<Rightarrow> session" where
  "parse_failed tag e s = record_error (Some (JStr (lit tag @ describe e))) s"

definition process_line :: "parser \<Rightarrow> jsstring \<Rightarrow> session \<Rightarrow> session outcome" where
  "process_line P line s =
     (if blank line then Returns s
      else and_then (decode_line P line)
        (\<lambda>d. case d of
           Inl parseError \<Rightarrow> Returns (parse_failed ''stream_parse_error: '' parseError s)
         | Inr data \<Rightarrow>
             and_then (handle_data data s)
               (\<lambda>h. case h of
                  Inl parseError \<Rightarrow> Returns (parse_failed ''stream_parse_error: '' parseError s)
                | Inr s' \<Rightarrow> Returns s')))"

fun process_lines :: "parser \<Rightarrow> jsstring list \<Rightarrow> session \<Rightarrow> session outcome" where
  "process_lines P [] s = Returns s"
| "process_lines P (l # ls) s = and_then (process_line P l s) (\<lambda>s'. process_lines P ls s')"

fun read_loop :: "parser \<Rightarrow> framer \<Rightarrow> chunk list \<Rightarrow> session \<Rightarrow> (framer \<times> session) outcome" where
  "read_loop P f [] s = Returns (f, s)"
| "read_loop P f (c # cs) s =
     and_then (process_lines P (fst (frame f c)) s) (\<lambda>s'. read_loop P (snd (frame f c)) cs s')"

section \<open>The remaining buffer\<close>

definition final_data :: "json \<Rightarrow> session \<Rightarrow> js_error + session" where
  "final_data data s =
     (if data = JNull then Inl (null_read ''type'')
      else
        (let s1 =
           (if read_prop data ''type'' = Some (JStr (lit ''error'')) \<or> truthy (read_prop data ''error'')
            then
              (let finalMsg =
                 (if truthy (read_prop data ''error'') then read_prop data ''error''
                  else Some (JStr (lit ''Unknown streaming error'')))
               in (record_error finalMsg s)\<lparr>isLoading := False\<rparr>)
            else s)
         in Inr (if read_prop data ''type'' = Some (JStr (lit ''answer'')) \<and> truthy (read_prop data ''done'')
                 then s1\<lparr>isLoading := False\<rparr> else s1)))"

definition final_flush :: "parser \<Rightarrow> jsstring \<Rightarrow> session \<Rightarrow> session outcome" where
  "final_flush P buf s =
     (if blank buf then Returns s
      else and_then (decode_line P buf)
        (\<lambda>d. case d of
           Inl parseError \<Rightarrow> Returns (parse_failed ''stream_parse_error(final): '' parseError s)
         | Inr data \<Rightarrow>
             (case final_data data s of
                Inl parseError \<Rightarrow>
                  Returns (parse_failed ''stream_parse_error(final): '' parseError s)
              | Inr s' \<Rightarrow> Returns s')))"

section \<open>\<open>submitQuery\<close>\<close>

text \<open>
  \<open>fetch\<close> is the platform's and is a parameter: it rejects, or resolves to a response with
  a status, a status text and a body. The body delivers its chunks and then ends, or fails
  with an error after them (\<open>read_failure\<close>); it is \<open>null\<close> for a status without a body.
  The request is kept by its JSON body. \<open>submitQuery\<close> returns \<open>null\<close> or the value of
  \<open>currentQuery\<close> that its closure captured when the callback was made (\<open>captured\<close>).
\<close>

record response =
  status :: nat
  statusText :: jsstring
  body :: "chunk list option"
  read_failure :: "js_error option"

datatype fetch_result = Rejected js_error | Resolved response

record request =
  request_question :: jsval
  request_num_docs :: int

definition response_ok :: "response \<Rightarrow> bool" where
  "response_ok r \<longleftrightarrow> 200 \<le> status r \<and> status r \<le> 299"

definition consume_response ::
  "parser \<Rightarrow> response \<Rightarrow> session \<Rightarrow> (js_error option \<times> session) outcome" where
  "consume_response P r s =
     (if \<not> response_ok r then
        (let msg = lit ''Server responded with '' @ decimal (status r) @ lit '': '' @ statusText r
         in Returns (Some (JsError (lit ''Error'') msg),
                     s\<lparr>currentQuery := Some (with_streamError (Some (JStr msg)) (currentQuery s))\<rparr>))
      else
        (case body r of
           None \<Rightarrow> Returns (Some (null_read ''getReader''), s)
         | Some chunks \<Rightarrow>
             and_then (read_loop P new_framer chunks s)
               (\<lambda>(f, s').
                  case read_failure r of
                    Some err \<Rightarrow> Returns (Some err, s')
                  | None \<Rightarrow>
                      and_then (final_flush P (buffer f) s') (\<lambda>s''. Returns (None, s'')))))"

definition settle ::
  "QueryResult option \<Rightarrow> js_error option \<times> session \<Rightarrow> QueryResult option \<times> session" where
  "settle captured r =
     (case fst r of
        None \<Rightarrow> (captured, (snd r)\<lparr>isLoading := False\<rparr>)
      | Some err \<Rightarrow>
          (None, (snd r)\<lparr>error := Some (JStr (error_message err)), isLoading := False\<rparr>))"

definition submitQuery ::
  "parser \<Rightarrow> (request \<Rightarrow> fetch_result) \<Rightarrow> QueryResult option \<Rightarrow> jsval \<Rightarrow> session \<Rightarrow>
     request list \<times> (QueryResult option \<times> session) outcome" where
  "submitQuery P fetch captured q s =
     (if \<not> isResourcesLoaded s then
        ([],
         Returns (None,
           s\<lparr>error := Some (JStr (lit ''Resources not loaded. Please wait for the system to initialize.''))\<rparr>))
      else
        (let s1 = s\<lparr>isLoading := True, error := Some JNull,
                     currentQuery := Some (initial_query q)\<rparr>;
             req = \<lparr>request_question = q, request_num_docs = numDocs s\<rparr>
         in ([req],
             case fetch req of
               Rejected err \<Rightarrow> Returns (settle captured (Some err, s1))
             | Resolved r \<Rightarrow>
                 and_then (consume_response P r s1) (\<lambda>x. Returns (settle captured x)))))"

section \<open>What an observer reads\<close>

text \<open>
  A consumer of the context reads the fields of the query result as \<open>currentQuery?.field\<close>:
  every field is \<open>undefined\<close> while \<open>currentQuery\<close> is \<open>null\<close>. \<open>merged\<close> is what the
  session holds apart from the recorded error: the loading flag and the query result
  without its \<open>streamError\<close>.
\<close>

definition query :: "session \<Rightarrow> QueryResult" where
  "query s = spread (currentQuery s)"

definition merged :: "session \<Rightarrow> bool \<times> QueryResult" where
  "merged s = (isLoading s, (query s)\<lparr>streamError := None\<rparr>)"

text \<open>
  The statements below speak of a decoded value on which the \<open>type\<close> is consulted (it is
  not \<open>null\<close> and its \<open>error\<close> is not truthy), of such a value of a given type, and of a
  line that records no error (it is blank, or decodes to such a value).
\<close>

definition plain_event :: "json \<Rightarrow> bool" where
  "plain_event d \<longleftrightarrow> d \<noteq> JNull \<and> \<not> truthy (read_prop d ''error'')"

definition event_type :: "json \<Rightarrow> string \<Rightarrow> bool" where
  "event_type d t \<longleftrightarrow> plain_event d \<and> read_prop d ''type'' = Some (JStr (lit t))"

definition ordinary :: "parser \<Rightarrow> jsstring \<Rightarrow> bool" where
  "ordinary P l \<longleftrightarrow> blank l \<or> (case P l of Inl e \<Rightarrow> False | Inr d \<Rightarrow> plain_event d)"

section \<open>\<open>JSON.parse\<close> and \<open>JSON.stringify\<close> on the integer fragment\<close>

text \<open>
  For the concrete streams below the parser parameter is instantiated with a parser of the
  JSON grammar of ECMAScript, restricted to integer number literals (a literal with a fraction
  or an exponent is refused here, where the platform accepts it). It reads the text one code
  unit at a time into tokens and the tokens into a value, with a stack of the arrays and
  objects under construction. A repeated key keeps its first place and takes the last value.
  The message of the \<open>SyntaxError\<close> is the engine's own; the model uses one fixed text.
\<close>

datatype token =
    TLBrace | TRBrace | TLBrack | TRBrack | TColon | TComma
  | TString jsstring | TNumber int | TTrue | TFalse | TNull

datatype lexmode =
    Idle
  | InString jsstring
  | InEscape jsstring
  | InUnicode jsstring "nat list"
  | InNumber bool "nat list"
  | InWord token jsstring

definition hex_value :: "nat \<Rightarrow> nat option" where
  "hex_value c =
     (if 0x30 \<le> c \<and> c \<le> 0x39 then Some (c - 0x30)
      else if 0x41 \<le> c \<and> c \<le> 0x46 then Some (c - 0x37)
      else if 0x61 \<le> c \<and> c \<le> 0x66 then Some (c - 0x57)
      else None)"

definition lex_idle :: "nat \<Rightarrow> (lexmode \<times> token list) option" where
  "lex_idle c =
     (if c = 0x20 \<or> c = 0x09 \<or> c = 0x0A \<or> c = 0x0D then Some (Idle, [])
      else if c = 0x7B then Some (Idle, [TLBrace])
      else if c = 0x7D then Some (Idle, [TRBrace])
      else if c = 0x5B then Some (Idle, [TLBrack])
      else if c = 0x5D then Some (Idle, [TRBrack])
      else if c = 0x3A then Some (Idle, [TColon])
      else if c = 0x2C then Some (Idle, [TComma])
      else if c = 0x22 then Some (InString [], [])
      else if c = 0x2D then Some (InNumber True [], [])
      else if 0x30 \<le> c \<and> c \<le> 0x39 then Some (InNumber False [c - 0x30], [])
      else if c = 0x74 then Some (InWord TTrue (lit ''rue''), [])
      else if c = 0x66 then Some (InWord TFalse (lit ''alse''), [])
      else if c = 0x6E then Some (InWord TNull (lit ''ull''), [])
      else None)"

definition number_token :: "bool \<Rightarrow> nat list \<Rightarrow> token option" where
  "number_token neg ds =
     (if ds = [] then None
      else Some (TNumber ((if neg then - 1 else 1) * int (foldl (\<lambda>a d. 10 * a + d) 0 ds))))"

definition lex_step :: "lexmode \<Rightarrow> nat \<Rightarrow> (lexmode \<times> token list) option" where
  "lex_step m c =
     (case m of
        Idle \<Rightarrow> lex_idle c
      | InString acc \<Rightarrow>
          if c = 0x22 then Some (Idle, [TString acc])
          else if c = 0x5C then Some (InEscape acc, [])
          else if c < 0x20 then None
          else Some (InString (acc @ [c]), [])
      | InEscape acc \<Rightarrow>
          if c = 0x22 \<or> c = 0x5C \<or> c = 0x2F then Some (InString (acc @ [c]), [])
          else if c = 0x62 then Some (InString (acc @ [0x08]), [])
          else if c = 0x66 then Some (InString (acc @ [0x0C]), [])
          else if c = 0x6E then Some (InString (acc @ [0x0A]), [])
          else if c = 0x72 then Some (InString (acc @ [0x0D]), [])
          else if c = 0x74 then Some (InString (acc @ [0x09]), [])
          else if c = 0x75 then Some (InUnicode acc [], [])
          else None
      | InUnicode acc hs \<Rightarrow>
          (case hex_value c of
             None \<Rightarrow> None
           | Some h \<Rightarrow>
               if length hs = 3
               then Some (InString (acc @ [foldl (\<lambda>a d. 16 * a + d) 0 (hs @ [h])]), [])
               else Some (InUnicode acc (hs @ [h]), []))
      | InNumber neg ds \<Rightarrow>
          if 0x30 \<le> c \<and> c \<le> 0x39 then
            (if ds = [0] then None else Some (InNumber neg (ds @ [c - 0x30]), []))
          else
            (case number_token neg ds of
               None \<Rightarrow> None
             | Some t \<Rightarrow>
                 (case lex_idle c of
                    None \<Rightarrow> None
                  | Some r \<Rightarrow> Some (fst r, t # snd r)))
      | InWord t rest \<Rightarrow>
          (case rest of
             [] \<Rightarrow> None
           | x # xs \<Rightarrow>
               if c = x then (if xs = [] then Some (Idle, [t]) else Some (InWord t xs, []))
               else None))"

fun scan :: "lexmode \<Rightarrow> jsstring \<Rightarrow> token list option" where
  "scan m [] =
     (case m of
        Idle \<Rightarrow> Some []
      | InNumber neg ds \<Rightarrow> map_option (\<lambda>t. [t]) (number_token neg ds)
      | _ \<Rightarrow> None)"
| "scan m (c # cs) =
     (case lex_step m c of
        None \<Rightarrow> None
      | Some r \<Rightarrow> map_option (\<lambda>ts. snd r @ ts) (scan (fst r) cs))"

datatype container =
    Arr "json list"
  | Obj "(jsstring \<times> json) list"
  | ObjKey "(jsstring \<times> json) list" jsstring

datatype pstate =
    PValue "container list"
  | PFirst "container list"
  | PKeyFirst "container list"
  | PKey "container list"
  | PColon "container list"
  | PNext "container list"
  | PEnd json

definition complete :: "json \<Rightarrow> container list \<Rightarrow> pstate option" where
  "complete v st =
     (case st of
        [] \<Rightarrow> Some (PEnd v)
      | Arr xs # st' \<Rightarrow> Some (PNext (Arr (xs @ [v]) # st'))
      | Obj ps # st' \<Rightarrow> None
      | ObjKey ps k # st' \<Rightarrow> Some (PNext (Obj (AList.update k v ps) # st')))"

definition scalar :: "token \<Rightarrow> json option" where
  "scalar t =
     (case t of
        TString x \<Rightarrow> Some (JStr x)
      | TNumber n \<Rightarrow> Some (JNum n)
      | TTrue \<Rightarrow> Some (JBool True)
      | TFalse \<Rightarrow> Some (JBool False)
      | TNull \<Rightarrow> Some JNull
      | _ \<Rightarrow> None)"

definition value_start :: "token \<Rightarrow> container list \<Rightarrow> pstate option" where
  "value_start t st =
     (case scalar t of
        Some v \<Rightarrow> complete v st
      | None \<Rightarrow>
          if t = TLBrack then Some (PFirst (Arr [] # st))
          else if t = TLBrace then Some (PKeyFirst (Obj [] # st))
          else None)"

definition key_start :: "token \<Rightarrow> container list \<Rightarrow> pstate option" where
  "key_start t st =
     (case t of
        TString k \<Rightarrow>
          (case st of
             Obj ps # st' \<Rightarrow> Some (PColon (ObjKey ps k # st'))
           | _ \<Rightarrow> None)
      | _ \<Rightarrow> None)"

definition pstep :: "pstate \<Rightarrow> token \<Rightarrow> pstate option" where
  "pstep p t =
     (case p of
        PValue st \<Rightarrow> value_start t st
      | PFirst st \<Rightarrow>
          if t = TRBrack then
            (case st of Arr xs # st' \<Rightarrow> complete (JArr xs) st' | _ \<Rightarrow> None)
          else value_start t st
      | PKeyFirst st \<Rightarrow>
          if t = TRBrace then
            (case st of Obj ps # st' \<Rightarrow> complete (JObj ps) st' | _ \<Rightarrow> None)
          else key_start t st
      | PKey st \<Rightarrow> key_start t st
      | PColon st \<Rightarrow> if t = TColon then Some (PValue st) else None
      | PNext st \<Rightarrow>
          (case st of
             Arr xs # st' \<Rightarrow>
               if t = TComma then Some (PValue st)
               else if t = TRBrack then complete (JArr xs) st'
               else None
           | Obj ps # st' \<Rightarrow>
               if t = TComma then Some (PKey st)
               else if t = TRBrace then complete (JObj ps) st'
               else None
           | _ \<Rightarrow> None)
      | PEnd v \<Rightarrow> None)"

fun parse_tokens :: "pstate \<Rightarrow> token list \<Rightarrow> json option" where
  "parse_tokens p [] = (case p of PEnd v \<Rightarrow> Some v | _ \<Rightarrow> None)"
| "parse_tokens p (t # ts) =
     (case pstep p t of None \<Rightarrow> None | Some p' \<Rightarrow> parse_tokens p' ts)"

definition syntax_error :: js_error where
  "syntax_error = JsError (lit ''SyntaxError'') (lit ''Unexpected token in JSON'')"

definition JSON_parse :: parser where
  "JSON_parse t =
     (case scan Idle t of
        None \<Rightarrow> Inl syntax_error
      | Some ts \<Rightarrow>
          (case parse_tokens (PValue []) ts of
             None \<Rightarrow> Inl syntax_error
           | Some v \<Rightarrow> Inr v))"

text \<open>
  \<open>JSON.stringify\<close> of a string: the string between double quotes, with the quote, the
  backslash and the control characters escaped. (A lone surrogate, which the platform
  writes as a \<open>\u\<close> escape, is left as it is here.)
\<close>

definition hex_digit :: "nat \<Rightarrow> nat" where
  "hex_digit d = (if d < 10 then 0x30 + d else 0x57 + d)"

definition quote_unit :: "nat \<Rightarrow> jsstring" where
  "quote_unit c =
     (if c = 0x08 then [0x5C, 0x62]
      else if c = 0x09 then [0x5C, 0x74]
      else if c = 0x0A then [0x5C, 0x6E]
      else if c = 0x0C then [0x5C, 0x66]
      else if c = 0x0D then [0x5C, 0x72]
      else if c = 0x22 then [0x5C, 0x22]
      else if c = 0x5C then [0x5C, 0x5C]
      else if c < 0x20 then [0x5C, 0x75, 0x30, 0x30, hex_digit (c div 16), hex_digit (c mod 16)]
      else [c])"

definition JSON_stringify_string :: "jsstring \<Rightarrow> jsstring" where
  "JSON_stringify_string x = [0x22] @ concat (map quote_unit x) @ [0x22]"

section \<open>The streams of the scenarios\<close>

text \<open>
  \<open>fresh q\<close> is the state in which \<open>submitQuery\<close> starts to read the stream of the
  question \<open>q\<close>: loading, no error, and the initial query result.
\<close>

definition fresh :: "jsval \<Rightarrow> session" where
  "fresh q =
     \<lparr>isLoading = True, error = Some JNull, isResourcesLoaded = True,
      currentQuery = Some (initial_query q), numDocs = 20\<rparr>"

definition the_question :: jsval where
  "the_question = Some (JStr (lit ''What is framing?''))"

definition idle :: session where
  "idle =
     \<lparr>isLoading = False, error = Some JNull, isResourcesLoaded = True,
      currentQuery = None, numDocs = 20\<rparr>"

definition documents_line :: string where
  \<open>documents_line =
     ''{"type":"documents","data":[{"content":"A"},{"content":"B"}],"requested_k":5,"effective_k":3}''\<close>

definition highlights_line :: string where
  \<open>highlights_line = ''{"type":"highlights","data":[{"content":"A","highlights":["x"]}]}''\<close>

definition answer_line :: string where
  \<open>answer_line =
     ''{"type":"answer","data":{"answer":"done","structured_answer":{"v":1}},"done":true}''\<close>

definition timeout_line :: string where
  \<open>timeout_line = ''{"error":"timeout"}''\<close>

definition malformed_line :: string where
  \<open>malformed_line = ''{"type":"documents",''\<close>

definition answer_with_k_line :: string where
  \<open>answer_with_k_line =
     ''{"type":"answer","data":{"answer":"a","structured_answer":null},"requested_k":7,"effective_k":7}''\<close>

definition empty_error_line :: string where
  \<open>empty_error_line = ''{"type":"documents","data":[{"content":"A"}],"error":""}''\<close>

definition second_answer_line :: string where
  \<open>second_answer_line = ''{"type":"answer","data":{"answer":"other","structured_answer":2}}''\<close>

text \<open>The values that the lines of the scenarios decode to.\<close>

definition documents_event :: json where
  "documents_event =
     JObj
       [(lit ''type'', JStr (lit ''documents'')),
        (lit ''data'',
           JArr [JObj [(lit ''content'', JStr (lit ''A''))],
                 JObj [(lit ''content'', JStr (lit ''B''))]]),
        (lit ''requested_k'', JNum 5),
        (lit ''effective_k'', JNum 3)]"

definition highlights_event :: json where
  "highlights_event =
     JObj
       [(lit ''type'', JStr (lit ''highlights'')),
        (lit ''data'',
           JArr [JObj [(lit ''content'', JStr (lit ''A'')),
                       (lit ''highlights'', JArr [JStr (lit ''x'')])]])]"

definition answer_event :: json where
  "answer_event =
     JObj
       [(lit ''type'', JStr (lit ''answer'')),
        (lit ''data'',
           JObj [(lit ''answer'', JStr (lit ''done'')),
                 (lit ''structured_answer'', JObj [(lit ''v'', JNum 1)])]),
        (lit ''done'', JBool True)]"

definition timeout_event :: json where
  "timeout_event = JObj [(lit ''error'', JStr (lit ''timeout''))]"

definition highlighted_documents :: json where
  "highlighted_documents =
     JArr
       [JObj [(lit ''content'', JStr (lit ''A'')), (lit ''highlights'', JArr [JStr (lit ''x'')])],
        JObj [(lit ''content'', JStr (lit ''B'')), (lit ''highlights'', JArr [])]]"

definition unavailable :: response where
  "unavailable =
     \<lparr>status = 503, statusText = lit ''Service Unavailable'', body = Some [], read_failure = None\<rparr>"

definition scenario_response :: response where
  "scenario_response =
     \<lparr>status = 200, statusText = lit ''OK'',
      body = Some [documents_line @ [CHR 0x0A] @ take 10 highlights_line,
                   drop 10 highlights_line @ [CHR 0x0A] @ answer_line @ [CHR 0x0A]],
      read_failure = None\<rparr>"

definition unterminated_answer_response :: response where
  "unterminated_answer_response =
     \<lparr>status = 200, statusText = lit ''OK'', body = Some [answer_line], read_failure = None\<rparr>"

section \<open>Outcomes\<close>

lemma and_then_Returns [simp]: "and_then (Returns x) f = f x"
  by (simp add: and_then_def)

lemma and_then_Render_crash [simp]: "and_then Render_crash f = Render_crash"
  by (simp add: and_then_def)

lemma and_then_Unmodelled [simp]: "and_then Unmodelled f = Unmodelled"
  by (simp add: and_then_def)

lemma and_then_assoc: "and_then (and_then m f) g = and_then m (\<lambda>x. and_then (f x) g)"
  by (cases m) simp_all

lemma and_then_Returns_right [simp]: "and_then m Returns = m"
  by (cases m) simp_all

lemma map_outcome_and_then: "map_outcome h (and_then m f) = and_then m (\<lambda>x. map_outcome h (f x))"
  by (cases m) simp_all

lemma map_outcome_and_then_Returns:
  "map_outcome h (and_then m (\<lambda>x. Returns (g x))) = map_outcome (\<lambda>x. h (g x)) m"
  by (cases m) simp_all

lemma and_then_cong: "m = m' \<Longrightarrow> (\<And>x. f x = g x) \<Longrightarrow> and_then m f = and_then m' g"
  by (auto simp: and_then_def split: outcome.splits)

lemma and_then_eq_Returns:
  "and_then m f = Returns y \<longleftrightarrow> (\<exists>x. m = Returns x \<and> f x = Returns y)"
  by (cases m) simp_all

section \<open>The framer does not depend on the chunk boundaries\<close>

text \<open>
  The decoder and the split compose over concatenation: decoding two chunks one after the
  other yields the text of their concatenation, and splitting a text that arrives in two
  parts yields the segments of the whole, once the unfinished last segment of the first
  part is put in front of the second.
\<close>

lemmas framer_defs =
  utf8_handler_def utf8_lead_def utf8_initial_def Let_def utf16_def decode_def
  new_TextDecoder_def pop_last_def is_space_def blank_def new_framer_def frame_def
  emitted_lines_def

lemma utf8_run_append:
  "utf8_run st (a @ b) =
     (fst (utf8_run (fst (utf8_run st a)) b),
      snd (utf8_run st a) @ snd (utf8_run (fst (utf8_run st a)) b))"
  by (induction a arbitrary: st) (simp_all add: case_prod_beta)

lemma serialize_fst_True: "fst (serialize True cs) = True"
  by (induction cs) simp_all

lemma serialize_append:
  "serialize seen (a @ b) =
     (fst (serialize (fst (serialize seen a)) b),
      snd (serialize seen a) @ snd (serialize (fst (serialize seen a)) b))"
  by (induction a arbitrary: seen) (simp_all add: serialize_fst_True)

lemma decode_append:
  "decode d (a @ b) =
     (fst (decode (fst (decode d a)) b), snd (decode d a) @ snd (decode (fst (decode d a)) b))"
  by (simp add: decode_def case_prod_beta utf8_run_append serialize_append)

lemma split_nl_nonempty: "split_nl t \<noteq> []"
  by (induction t) (simp_all split: list.splits)

lemma split_nl_append:
  "split_nl (a @ b) = butlast (split_nl a) @ split_nl (last (split_nl a) @ b)"
proof (induction a)
  case Nil
  show ?case by simp
next
  case (Cons c a)
  obtain seg segs where S: "split_nl a = seg # segs"
    using split_nl_nonempty [of a] by (cases "split_nl a") auto
  show ?case
  proof (cases "c = 0x0A")
    case True
    with Cons S show ?thesis by (simp add: split_nl_nonempty)
  next
    case False
    show ?thesis
    proof (cases segs)
      case Nil
      with False Cons S show ?thesis by simp
    next
      case (Cons seg' segs')
      with False Cons.IH S show ?thesis by simp
    qed
  qed
qed

lemma split_nl_no_newline: "0x0A \<notin> set b \<Longrightarrow> split_nl b = [b]"
  by (induction b) simp_all

lemma last_split_nl_no_newline: "0x0A \<notin> set (last (split_nl t))"
proof (induction t)
  case Nil
  show ?case by simp
next
  case (Cons c t)
  then show ?case
    by (cases "split_nl t"; cases "tl (split_nl t)") (auto simp: split_nl_nonempty)
qed

lemma frame_eq:
  "frame f c =
     (butlast (split_nl (buffer f @ snd (decode (decoder f) c))),
      \<lparr>decoder = fst (decode (decoder f) c),
       buffer = last (split_nl (buffer f @ snd (decode (decoder f) c)))\<rparr>)"
  by (simp add: frame_def case_prod_beta pop_last_def split_nl_nonempty)

lemma frame_all_whole:
  assumes "0x0A \<notin> set (buffer f)"
  shows "frame_all f cs =
     (butlast (split_nl (buffer f @ snd (decode (decoder f) (concat cs)))),
      \<lparr>decoder = fst (decode (decoder f) (concat cs)),
       buffer = last (split_nl (buffer f @ snd (decode (decoder f) (concat cs))))\<rparr>)"
  using assms
proof (induction cs arbitrary: f)
  case Nil
  then show ?case by (simp add: decode_def split_nl_no_newline)
next
  case (Cons c cs)
  define t where "t = buffer f @ snd (decode (decoder f) c)"
  define d where "d = fst (decode (decoder f) c)"
  define u where "u = snd (decode d (concat cs))"
  have step: "frame f c = (butlast (split_nl t), \<lparr>decoder = d, buffer = last (split_nl t)\<rparr>)"
    unfolding t_def d_def by (rule frame_eq)
  have "0x0A \<notin> set (buffer (snd (frame f c)))"
    by (simp add: step last_split_nl_no_newline)
  from Cons.IH [OF this]
  have ih: "frame_all \<lparr>decoder = d, buffer = last (split_nl t)\<rparr> cs =
     (butlast (split_nl (last (split_nl t) @ u)),
      \<lparr>decoder = fst (decode d (concat cs)), buffer = last (split_nl (last (split_nl t) @ u))\<rparr>)"
    by (simp add: step u_def)
  have dec: "decode (decoder f) (c @ concat cs) = (fst (decode d (concat cs)), snd (decode (decoder f) c) @ u)"
    unfolding d_def u_def by (rule decode_append)
  have whole: "split_nl (buffer f @ snd (decode (decoder f) (c @ concat cs))) =
      butlast (split_nl t) @ split_nl (last (split_nl t) @ u)"
    using split_nl_append [of t u] by (simp add: dec t_def)
  have "frame_all f (c # cs) =
      (butlast (split_nl t) @ butlast (split_nl (last (split_nl t) @ u)),
       \<lparr>decoder = fst (decode d (concat cs)), buffer = last (split_nl (last (split_nl t) @ u))\<rparr>)"
    by (simp add: ih step)
  also have "\<dots> = (butlast (split_nl (buffer f @ snd (decode (decoder f) (c @ concat cs)))),
      \<lparr>decoder = fst (decode (decoder f) (c @ concat cs)),
       buffer = last (split_nl (buffer f @ snd (decode (decoder f) (c @ concat cs))))\<rparr>)"
    unfolding whole by (simp add: dec butlast_append split_nl_nonempty)
  finally show ?case by simp
qed

lemma emitted_lines_whole:
  "emitted_lines cs =
     (filter (\<lambda>l. \<not> blank l) (butlast (split_nl (snd (decode new_TextDecoder (concat cs))))),
      if blank (last (split_nl (snd (decode new_TextDecoder (concat cs))))) then None
      else Some (last (split_nl (snd (decode new_TextDecoder (concat cs))))))"
proof -
  have "frame_all new_framer cs =
     (butlast (split_nl (snd (decode new_TextDecoder (concat cs)))),
      \<lparr>decoder = fst (decode new_TextDecoder (concat cs)),
       buffer = last (split_nl (snd (decode new_TextDecoder (concat cs))))\<rparr>)"
    using frame_all_whole [of new_framer cs] by (simp add: new_framer_def)
  then show ?thesis
    by (simp add: emitted_lines_def)
qed

section \<open>A line is decoded by one parse\<close>

text \<open>
  The second attempt of the decoder parses the very line whose parse has just thrown, so it
  throws again: the decoder returns what \<open>JSON.parse\<close> returns on the line, and nothing else.
\<close>

lemma decode_line_is_parse: "decode_line P line = Returns (P line)"
  by (simp add: decode_line_def split: sum.splits)

lemma process_line_blank: "blank l \<Longrightarrow> process_line P l s = Returns s"
  by (simp add: process_line_def)

lemma process_line_undecodable:
  "\<not> blank l \<Longrightarrow> P l = Inl e \<Longrightarrow>
     process_line P l s = Returns (parse_failed ''stream_parse_error: '' e s)"
  by (simp add: process_line_def decode_line_is_parse)

lemma process_line_decoded:
  "\<not> blank l \<Longrightarrow> P l = Inr d \<Longrightarrow>
     process_line P l s =
       and_then (handle_data d s)
         (\<lambda>h. case h of
            Inl e \<Rightarrow> Returns (parse_failed ''stream_parse_error: '' e s)
          | Inr s' \<Rightarrow> Returns s')"
  by (simp add: process_line_def decode_line_is_parse)

lemma process_lines_append:
  "process_lines P (a @ b) s = and_then (process_lines P a s) (\<lambda>s'. process_lines P b s')"
  by (induction a arbitrary: s) (simp_all add: and_then_assoc cong: and_then_cong)

lemma process_lines_filter_blank:
  "process_lines P (filter (\<lambda>l. \<not> blank l) ls) s = process_lines P ls s"
  by (induction ls arbitrary: s) (simp_all add: process_line_blank cong: and_then_cong)

lemma final_flush_blank: "blank b \<Longrightarrow> final_flush P b s = Returns s"
  by (simp add: final_flush_def)

lemma final_flush_undecodable:
  "\<not> blank b \<Longrightarrow> P b = Inl e \<Longrightarrow>
     final_flush P b s = Returns (parse_failed ''stream_parse_error(final): '' e s)"
  by (simp add: final_flush_def decode_line_is_parse)

lemma final_flush_decoded:
  "\<not> blank b \<Longrightarrow> P b = Inr d \<Longrightarrow>
     final_flush P b s =
       (case final_data d s of
          Inl e \<Rightarrow> Returns (parse_failed ''stream_parse_error(final): '' e s)
        | Inr s' \<Rightarrow> Returns s')"
  by (simp add: final_flush_def decode_line_is_parse)

text \<open>
  The read loop processes the non-blank complete lines of the framer, in order, and the
  remaining buffer is flushed after them.
\<close>

lemma read_loop_frame_all:
  "read_loop P f cs s =
     and_then (process_lines P (fst (frame_all f cs)) s) (\<lambda>s'. Returns (snd (frame_all f cs), s'))"
  by (induction cs arbitrary: f s)
    (simp_all add: case_prod_beta process_lines_append and_then_assoc cong: and_then_cong)

lemma consume_response_emitted:
  assumes "response_ok r" "body r = Some cs"
  shows "consume_response P r s =
     and_then (process_lines P (fst (emitted_lines cs)) s)
       (\<lambda>s'. case read_failure r of
                Some err \<Rightarrow> Returns (Some err, s')
              | None \<Rightarrow>
                  and_then (case snd (emitted_lines cs) of
                              None \<Rightarrow> Returns s'
                            | Some b \<Rightarrow> final_flush P b s')
                    (\<lambda>s''. Returns (None, s'')))"
proof -
  obtain ls f where fa: "frame_all new_framer cs = (ls, f)"
    by (cases "frame_all new_framer cs")
  have e: "emitted_lines cs =
      (filter (\<lambda>l. \<not> blank l) ls, if blank (buffer f) then None else Some (buffer f))"
    by (simp add: emitted_lines_def fa)
  have fl: "(case (if blank (buffer f) then None else Some (buffer f)) of
               None \<Rightarrow> Returns s' | Some b \<Rightarrow> final_flush P b s') =
            final_flush P (buffer f) s'" for s'
    by (simp add: final_flush_blank)
  show ?thesis
    using assms
    by (cases "read_failure r")
      (simp_all add: consume_response_def read_loop_frame_all fa e fl process_lines_filter_blank
        and_then_assoc)
qed

lemma consume_response_chunk_invariant:
  assumes "concat cs = concat cs'"
  shows "consume_response P (r\<lparr>body := Some cs\<rparr>) s = consume_response P (r\<lparr>body := Some cs'\<rparr>) s"
proof (cases "response_ok r")
  case True
  then have ok: "response_ok (r\<lparr>body := Some cs\<rparr>)" "response_ok (r\<lparr>body := Some cs'\<rparr>)"
    by (simp_all add: response_ok_def)
  have e: "emitted_lines cs = emitted_lines cs'"
    using assms by (simp only: emitted_lines_whole)
  have "consume_response P (r\<lparr>body := Some cs\<rparr>) s =
     and_then (process_lines P (fst (emitted_lines cs)) s)
       (\<lambda>s'. case read_failure (r\<lparr>body := Some cs\<rparr>) of
                Some err \<Rightarrow> Returns (Some err, s')
              | None \<Rightarrow>
                  and_then (case snd (emitted_lines cs) of
                              None \<Rightarrow> Returns s'
                            | Some b \<Rightarrow> final_flush P b s')
                    (\<lambda>s''. Returns (None, s'')))"
    by (rule consume_response_emitted [OF ok(1)]) simp
  moreover have "consume_response P (r\<lparr>body := Some cs'\<rparr>) s =
     and_then (process_lines P (fst (emitted_lines cs')) s)
       (\<lambda>s'. case read_failure (r\<lparr>body := Some cs'\<rparr>) of
                Some err \<Rightarrow> Returns (Some err, s')
              | None \<Rightarrow>
                  and_then (case snd (emitted_lines cs') of
                              None \<Rightarrow> Returns s'
                            | Some b \<Rightarrow> final_flush P b s')
                    (\<lambda>s''. Returns (None, s'')))"
    by (rule consume_response_emitted [OF ok(2)]) simp
  ultimately show ?thesis
    by (simp only: e) simp
next
  case False
  then show ?thesis by (simp add: consume_response_def response_ok_def)
qed

section \<open>The recorded error does not influence the merge\<close>

text \<open>
  Every update reads \<open>prev\<close> through its fields only, and none of them reads
  \<open>streamError\<close>: two sessions that differ in the recorded error only are taken by every
  line to sessions that differ in the recorded error only.
\<close>

lemma spread_Some [simp]: "spread (Some q) = q"
  by (simp add: spread_def)

lemma query_record_error [simp]: "query (record_error m s) = (query s)\<lparr>streamError := m\<rparr>"
  by (simp add: query_def record_error_def with_streamError_def)

lemma isLoading_record_error [simp]: "isLoading (record_error m s) = isLoading s"
  by (simp add: record_error_def)

lemma merged_record_error [simp]: "merged (record_error m s) = merged s"
  by (simp add: merged_def)

lemma merged_parse_failed [simp]: "merged (parse_failed tag e s) = merged s"
  by (simp add: parse_failed_def)

lemma query_parse_failed [simp]:
  "query (parse_failed tag e s) = (query s)\<lparr>streamError := Some (JStr (lit tag @ describe e))\<rparr>"
  by (simp add: parse_failed_def)

lemma error_parse_failed [simp]:
  "error (parse_failed tag e s) = Some (JStr (lit tag @ describe e))"
  by (simp add: parse_failed_def record_error_def)

lemma upd_documents_spread: "upd_documents d prev = upd_documents d (Some (spread prev))"
  by (simp add: upd_documents_def)

lemma upd_answer_spread: "upd_answer d prev = upd_answer d (Some (spread prev))"
  by (simp add: upd_answer_def split: option.splits)

lemma prev_documents_spread: "prev_documents prev = prev_documents (Some (spread prev))"
  by (cases prev) (simp_all add: prev_documents_def spread_def)

lemma upd_highlights_spread: "upd_highlights d prev = upd_highlights d (Some (spread prev))"
  using prev_documents_spread [of prev]
  by (simp add: upd_highlights_def split: option.splits json.splits)

lemma upd_documents_streamError:
  "upd_documents d (Some (q\<lparr>streamError := x\<rparr>)) = (upd_documents d (Some q))\<lparr>streamError := x\<rparr>"
  by (simp add: upd_documents_def)

lemma upd_answer_streamError:
  "upd_answer d (Some (q\<lparr>streamError := x\<rparr>)) =
     map_outcome (\<lambda>r. r\<lparr>streamError := x\<rparr>) (upd_answer d (Some q))"
  by (simp add: upd_answer_def split: option.splits)

lemma prev_documents_streamError:
  "prev_documents (Some (q\<lparr>streamError := x\<rparr>)) = prev_documents (Some q)"
  by (simp add: prev_documents_def)

lemma upd_highlights_streamError:
  "upd_highlights d (Some (q\<lparr>streamError := x\<rparr>)) =
     map_outcome (\<lambda>r. r\<lparr>streamError := x\<rparr>) (upd_highlights d (Some q))"
  by (cases q) (simp add: upd_highlights_def map_outcome_and_then prev_documents_def
      split: option.splits json.splits cong: and_then_cong)

lemma query_eq_upto_streamError:
  "merged s = merged t \<Longrightarrow> query t = (query s)\<lparr>streamError := streamError (query t)\<rparr>"
  by (cases "query s"; cases "query t") (simp add: merged_def)

lemma setCurrentQuery_via_query:
  "(\<And>prev. upd prev = upd (Some (spread prev))) \<Longrightarrow>
   setCurrentQuery upd s = and_then (upd (Some (query s))) (\<lambda>q. Returns (s\<lparr>currentQuery := Some q\<rparr>))"
  by (simp add: setCurrentQuery_def query_def)

lemma merged_setCurrentQuery_eq:
  "map_outcome merged (setCurrentQuery upd s) =
     map_outcome (\<lambda>r. (isLoading s, r\<lparr>streamError := None\<rparr>)) (upd (currentQuery s))"
  by (cases "upd (currentQuery s)") (simp_all add: setCurrentQuery_def merged_def query_def)

lemma merged_setCurrentQuery:
  assumes sp: "\<And>prev. upd prev = upd (Some (spread prev))"
    and se: "\<And>q x. upd (Some (q\<lparr>streamError := x\<rparr>)) =
               map_outcome (\<lambda>r. r\<lparr>streamError := x\<rparr>) (upd (Some q))"
    and m: "merged s = merged t"
  shows "map_outcome merged (setCurrentQuery upd s) = map_outcome merged (setCurrentQuery upd t)"
proof -
  have l: "isLoading s = isLoading t"
    using m by (simp add: merged_def)
  have q: "query t = (query s)\<lparr>streamError := streamError (query t)\<rparr>"
    using m by (rule query_eq_upto_streamError)
  have "upd (currentQuery t) = upd (Some (query t))"
    using sp [of "currentQuery t"] by (simp add: query_def)
  also have "\<dots> = map_outcome (\<lambda>r. r\<lparr>streamError := streamError (query t)\<rparr>) (upd (Some (query s)))"
    using se [where q = "query s" and x = "streamError (query t)"] q by simp
  also have "upd (Some (query s)) = upd (currentQuery s)"
    using sp [of "currentQuery s"] by (simp add: query_def)
  finally show ?thesis
    by (simp add: merged_setCurrentQuery_eq l outcome.map_comp comp_def)
qed

lemma merged_isLoading_False: "merged (s\<lparr>isLoading := False\<rparr>) = (False, snd (merged s))"
  by (simp add: merged_def query_def)

lemma lift_merged:
  assumes "map_outcome merged X = map_outcome merged Y"
  shows "map_outcome (\<lambda>x. k (merged x)) X = map_outcome (\<lambda>x. k (merged x)) Y"
proof -
  have "map_outcome (\<lambda>x. k (merged x)) X = map_outcome k (map_outcome merged X)"
    by (simp add: outcome.map_comp comp_def)
  also have "\<dots> = map_outcome k (map_outcome merged Y)"
    by (simp only: assms)
  also have "\<dots> = map_outcome (\<lambda>x. k (merged x)) Y"
    by (simp add: outcome.map_comp comp_def)
  finally show ?thesis .
qed

lemma merged_handle_data:
  assumes m: "merged s = merged t"
  shows "map_outcome (map_sum id merged) (handle_data d s) =
         map_outcome (map_sum id merged) (handle_data d t)"
proof -
  have doc: "map_outcome merged (setCurrentQuery (\<lambda>prev. Returns (upd_documents d prev)) s) =
             map_outcome merged (setCurrentQuery (\<lambda>prev. Returns (upd_documents d prev)) t)"
    using m by (intro merged_setCurrentQuery) (simp_all add: upd_documents_streamError upd_documents_spread [symmetric])
  have hl: "map_outcome merged (setCurrentQuery (upd_highlights d) s) =
            map_outcome merged (setCurrentQuery (upd_highlights d) t)"
    using m by (intro merged_setCurrentQuery) (simp_all add: upd_highlights_streamError upd_highlights_spread [symmetric])
  have an: "map_outcome merged (setCurrentQuery (upd_answer d) s) =
            map_outcome merged (setCurrentQuery (upd_answer d) t)"
    using m by (intro merged_setCurrentQuery) (simp_all add: upd_answer_streamError upd_answer_spread [symmetric])
  consider (null) "d = JNull"
    | (err) "d \<noteq> JNull" "truthy (read_prop d ''error'')"
    | (documents) "d \<noteq> JNull" "\<not> truthy (read_prop d ''error'')"
        "read_prop d ''type'' = Some (JStr (lit ''documents''))"
    | (highlights) "d \<noteq> JNull" "\<not> truthy (read_prop d ''error'')"
        "read_prop d ''type'' = Some (JStr (lit ''highlights''))"
    | (answer) "d \<noteq> JNull" "\<not> truthy (read_prop d ''error'')"
        "read_prop d ''type'' = Some (JStr (lit ''answer''))"
    | (other) "d \<noteq> JNull" "\<not> truthy (read_prop d ''error'')"
        "read_prop d ''type'' \<noteq> Some (JStr (lit ''documents''))"
        "read_prop d ''type'' \<noteq> Some (JStr (lit ''highlights''))"
        "read_prop d ''type'' \<noteq> Some (JStr (lit ''answer''))"
    by blast
  then show ?thesis
  proof cases
    case null
    then show ?thesis by (simp add: handle_data_def)
  next
    case err
    then show ?thesis using m by (simp add: handle_data_def merged_isLoading_False)
  next
    case documents
    then show ?thesis
      using lift_merged [OF doc, of Inr]
      by (simp add: handle_data_def map_outcome_and_then_Returns)
  next
    case highlights
    then show ?thesis
      using lift_merged [OF hl, of Inr]
      by (simp add: handle_data_def map_outcome_and_then_Returns lit_def)
  next
    case answer
    then show ?thesis
      using lift_merged [OF an, of Inr] lift_merged [OF an, of "\<lambda>p. Inr (False, snd p)"]
      by (cases "truthy (read_prop d ''done'')")
        (simp_all add: handle_data_def map_outcome_and_then_Returns lit_def merged_isLoading_False)
  next
    case other
    then show ?thesis using m by (simp add: handle_data_def)
  qed
qed

lemma merged_process_line:
  assumes m: "merged s = merged t"
  shows "map_outcome merged (process_line P l s) = map_outcome merged (process_line P l t)"
proof (cases "blank l")
  case True
  then show ?thesis using m by (simp add: process_line_blank)
next
  case False
  show ?thesis
  proof (cases "P l")
    case (Inl e)
    with False m show ?thesis by (simp add: process_line_undecodable)
  next
    case (Inr d)
    have "map_outcome merged (process_line P l u) =
        map_outcome (case_sum (\<lambda>e. merged u) id)
          (map_outcome (map_sum id merged) (handle_data d u))" for u
      using False Inr
      by (cases "handle_data d u") (simp_all add: process_line_decoded split: sum.splits)
    then show ?thesis
      using merged_handle_data [OF m, of d] m by simp
  qed
qed

lemma merged_process_lines:
  "merged s = merged t \<Longrightarrow>
     map_outcome merged (process_lines P ls s) = map_outcome merged (process_lines P ls t)"
proof (induction ls arbitrary: s t)
  case Nil
  then show ?case by simp
next
  case (Cons l ls)
  from merged_process_line [OF Cons.prems, of P l]
  show ?case
  proof (cases "process_line P l s"; cases "process_line P l t")
    fix s' t'
    assume a: "process_line P l s = Returns s'" "process_line P l t = Returns t'"
    with merged_process_line [OF Cons.prems, of P l] have "merged s' = merged t'" by simp
    from Cons.IH [OF this] a show ?thesis by simp
  qed simp_all
qed

section \<open>What one decoded value does\<close>

lemma handle_data_cases:
  assumes "handle_data d s = Returns (Inr s')"
  obtains
    (err) "d \<noteq> JNull" "truthy (read_prop d ''error'')"
      "s' = (record_error (read_prop d ''error'') s)\<lparr>isLoading := False\<rparr>"
  | (documents) "d \<noteq> JNull" "\<not> truthy (read_prop d ''error'')"
      "read_prop d ''type'' = Some (JStr (lit ''documents''))"
      "s' = s\<lparr>currentQuery := Some (upd_documents d (currentQuery s))\<rparr>"
  | (highlights) q' where "d \<noteq> JNull" "\<not> truthy (read_prop d ''error'')"
      "read_prop d ''type'' = Some (JStr (lit ''highlights''))"
      "upd_highlights d (currentQuery s) = Returns q'"
      "s' = s\<lparr>currentQuery := Some q'\<rparr>"
  | (answer) q' where "d \<noteq> JNull" "\<not> truthy (read_prop d ''error'')"
      "read_prop d ''type'' = Some (JStr (lit ''answer''))"
      "upd_answer d (currentQuery s) = Returns q'"
      "s' = (if truthy (read_prop d ''done'')
             then s\<lparr>currentQuery := Some q', isLoading := False\<rparr>
             else s\<lparr>currentQuery := Some q'\<rparr>)"
  | (other) "d \<noteq> JNull" "\<not> truthy (read_prop d ''error'')"
      "read_prop d ''type'' \<noteq> Some (JStr (lit ''documents''))"
      "read_prop d ''type'' \<noteq> Some (JStr (lit ''highlights''))"
      "read_prop d ''type'' \<noteq> Some (JStr (lit ''answer''))"
      "s' = s"
  using assms
  by (auto simp: handle_data_def setCurrentQuery_def and_then_eq_Returns split: if_splits)

lemma handle_data_throws:
  "handle_data d s = Returns (Inl e) \<longleftrightarrow> d = JNull \<and> e = null_read ''error''"
  by (auto simp: handle_data_def setCurrentQuery_def and_then_eq_Returns split: if_splits)

lemma upd_documents_fields:
  "question (upd_documents d prev) = question (spread prev)"
  "answer (upd_documents d prev) = answer (spread prev)"
  "structured_answer (upd_documents d prev) = structured_answer (spread prev)"
  "streamError (upd_documents d prev) = streamError (spread prev)"
  "requestedK (upd_documents d prev) =
     coalesce (coalesce (read_prop d ''requested_k'') (requestedK (spread prev))) (Some JNull)"
  "effectiveK (upd_documents d prev) =
     coalesce (coalesce (read_prop d ''effective_k'') (effectiveK (spread prev))) (Some JNull)"
  by (simp_all add: upd_documents_def)

lemma upd_highlights_fields:
  assumes "upd_highlights d prev = Returns q'"
  shows "question q' = question (spread prev)" "answer q' = answer (spread prev)"
    "structured_answer q' = structured_answer (spread prev)"
    "streamError q' = streamError (spread prev)"
    "requestedK q' =
       coalesce (coalesce (read_prop d ''requested_k'') (requestedK (spread prev))) (Some JNull)"
    "effectiveK q' =
       coalesce (coalesce (read_prop d ''effective_k'') (effectiveK (spread prev))) (Some JNull)"
  using assms
  by (auto simp: upd_highlights_def and_then_eq_Returns split: option.splits json.splits)

lemma upd_answer_fields:
  assumes "upd_answer d prev = Returns q'"
  shows "question q' = question (spread prev)" "documents q' = documents (spread prev)"
    "streamError q' = streamError (spread prev)"
    "requestedK q' = requestedK (spread prev)" "effectiveK q' = effectiveK (spread prev)"
    "\<exists>dd. read_prop d ''data'' = Some dd \<and> dd \<noteq> JNull \<and> answer q' = read_prop dd ''answer'' \<and>
        structured_answer q' = read_prop dd ''structured_answer''"
  using assms
  by (auto simp: upd_answer_def split: option.splits if_splits)

lemma query_fields_handle_data:
  assumes "handle_data d s = Returns (Inr s')" "plain_event d"
  shows "streamError (query s') = streamError (query s) \<and> error s' = error s \<and>
    question (query s') = question (query s)"
  using assms(1)
proof (cases rule: handle_data_cases)
  case err
  with assms(2) show ?thesis by (simp add: plain_event_def)
next
  case documents
  then show ?thesis by (simp add: query_def upd_documents_def)
next
  case (highlights q')
  then show ?thesis
    using upd_highlights_fields [of d "currentQuery s" q'] by (simp add: query_def)
next
  case (answer q')
  then show ?thesis
    using upd_answer_fields [of d "currentQuery s" q'] by (simp add: query_def)
next
  case other
  then show ?thesis by simp
qed

lemma ordinary_line_keeps_error:
  assumes "ordinary P l" "process_line P l s = Returns s'"
  shows "streamError (query s') = streamError (query s) \<and> error s' = error s"
proof (cases "blank l")
  case True
  with assms show ?thesis by (simp add: process_line_blank)
next
  case False
  with assms(1) obtain d where d: "P l = Inr d" "plain_event d"
    by (auto simp: ordinary_def split: sum.splits)
  from assms(2) False d(1) obtain h where h: "handle_data d s = Returns h"
    "(case h of Inl e \<Rightarrow> Returns (parse_failed ''stream_parse_error: '' e s) | Inr x \<Rightarrow> Returns x) = Returns s'"
    by (auto simp: process_line_decoded and_then_eq_Returns)
  show ?thesis
  proof (cases h)
    case (Inl e)
    with h(1) d(2) show ?thesis by (simp add: handle_data_throws plain_event_def)
  next
    case (Inr x)
    with h have "handle_data d s = Returns (Inr s')" by simp
    from query_fields_handle_data [OF this d(2)] show ?thesis by simp
  qed
qed

lemma ordinary_lines_keep_error:
  "list_all (ordinary P) ls \<Longrightarrow> process_lines P ls s = Returns s' \<Longrightarrow>
     streamError (query s') = streamError (query s) \<and> error s' = error s"
proof (induction ls arbitrary: s)
  case Nil
  then show ?case by simp
next
  case (Cons l ls)
  from Cons.prems(2) obtain s1 where s1: "process_line P l s = Returns s1"
    "process_lines P ls s1 = Returns s'"
    by (auto simp: and_then_eq_Returns)
  from Cons.prems(1) have "ordinary P l" "list_all (ordinary P) ls" by simp_all
  from ordinary_line_keeps_error [OF this(1) s1(1)] Cons.IH [OF this(2) s1(2)]
  show ?case by simp
qed

lemma string_value_is_ignored: "handle_data (JStr x) s = Returns (Inr s)"
  by (simp add: handle_data_def read_prop_def truthy_def)

lemma final_flush_never_merges:
  assumes "final_flush P b s = Returns s'"
  shows "question (query s') = question (query s) \<and> documents (query s') = documents (query s) \<and>
    answer (query s') = answer (query s) \<and>
    structured_answer (query s') = structured_answer (query s) \<and>
    requestedK (query s') = requestedK (query s) \<and> effectiveK (query s') = effectiveK (query s)"
proof (cases "blank b")
  case True
  with assms show ?thesis by (simp add: final_flush_def)
next
  case False
  show ?thesis
  proof (cases "P b")
    case (Inl e)
    with False assms show ?thesis by (auto simp: final_flush_undecodable)
  next
    case (Inr d)
    with False assms show ?thesis
      by (auto simp: final_flush_decoded final_data_def Let_def query_def record_error_def
          with_streamError_def parse_failed_def split: if_splits)
  qed
qed

lemma final_flush_terminal:
  assumes "\<not> blank b" "P b = Inr d" "d \<noteq> JNull"
    and "truthy (read_prop d ''error'') \<or> (read_prop d ''type'' = Some (JStr (lit ''answer'')) \<and> truthy (read_prop d ''done''))"
  shows "\<exists>s'. final_flush P b s = Returns s' \<and> \<not> isLoading s'"
  using assms by (auto simp: final_flush_decoded final_data_def Let_def)

section \<open>The lines of the scenarios\<close>

lemmas parse_defs =
  lit_def hex_value_def lex_idle_def number_token_def lex_step_def complete_def scalar_def
  value_start_def key_start_def pstep_def syntax_error_def JSON_parse_def

lemma parse_documents_line: "JSON_parse (lit documents_line) = Inr documents_event"
  by (simp add: documents_line_def documents_event_def parse_defs)

lemma parse_highlights_line: "JSON_parse (lit highlights_line) = Inr highlights_event"
  by (simp add: highlights_line_def highlights_event_def parse_defs)

lemma parse_answer_line: "JSON_parse (lit answer_line) = Inr answer_event"
  by (simp add: answer_line_def answer_event_def parse_defs)

lemma parse_timeout_line: "JSON_parse (lit timeout_line) = Inr timeout_event"
  by (simp add: timeout_line_def timeout_event_def parse_defs)

lemma parse_malformed_line: "JSON_parse (lit malformed_line) = Inl syntax_error"
  by (simp add: malformed_line_def parse_defs)

lemma parse_answer_with_k_line:
  "JSON_parse (lit answer_with_k_line) =
     Inr (JObj
       [(lit ''type'', JStr (lit ''answer'')),
        (lit ''data'', JObj [(lit ''answer'', JStr (lit ''a'')), (lit ''structured_answer'', JNull)]),
        (lit ''requested_k'', JNum 7),
        (lit ''effective_k'', JNum 7)])"
  by (simp add: answer_with_k_line_def parse_defs)

lemma parse_empty_error_line:
  "JSON_parse (lit empty_error_line) =
     Inr (JObj
       [(lit ''type'', JStr (lit ''documents'')),
        (lit ''data'', JArr [JObj [(lit ''content'', JStr (lit ''A''))]]),
        (lit ''error'', JStr [])])"
  by (simp add: empty_error_line_def parse_defs)

lemma parse_second_answer_line:
  "JSON_parse (lit second_answer_line) =
     Inr (JObj
       [(lit ''type'', JStr (lit ''answer'')),
        (lit ''data'', JObj [(lit ''answer'', JStr (lit ''other'')), (lit ''structured_answer'', JNum 2)])])"
  by (simp add: second_answer_line_def parse_defs)

lemma not_blank_documents_line: "\<not> blank (lit documents_line)"
  by (simp add: documents_line_def lit_def blank_def is_space_def)

lemma not_blank_highlights_line: "\<not> blank (lit highlights_line)"
  by (simp add: highlights_line_def lit_def blank_def is_space_def)

lemma not_blank_answer_line: "\<not> blank (lit answer_line)"
  by (simp add: answer_line_def lit_def blank_def is_space_def)

lemma not_blank_lines:
  "\<not> blank (lit timeout_line)" "\<not> blank (lit malformed_line)"
  "\<not> blank (lit answer_with_k_line)" "\<not> blank (lit empty_error_line)"
  "\<not> blank (lit second_answer_line)"
  by (simp_all add: timeout_line_def malformed_line_def answer_with_k_line_def
      empty_error_line_def second_answer_line_def
      lit_def blank_def is_space_def)

lemma documents_event_facts:
  "event_type documents_event ''documents''"
  "\<not> event_type documents_event ''answer''"
  "read_prop documents_event ''requested_k'' = Some (JNum 5)"
  "read_prop documents_event ''effective_k'' = Some (JNum 3)"
  by (simp_all add: documents_event_def event_type_def plain_event_def read_prop_def truthy_def lit_def)

lemma answer_event_facts:
  "event_type answer_event ''answer''"
  "\<not> event_type answer_event ''documents''"
  "\<not> event_type answer_event ''highlights''"
  "read_prop answer_event ''requested_k'' = None"
  "read_prop answer_event ''effective_k'' = None"
  "Option.bind (read_prop answer_event ''data'') (\<lambda>x. read_prop x ''answer'') = Some (JStr (lit ''done''))"
  "Option.bind (read_prop answer_event ''data'') (\<lambda>x. read_prop x ''structured_answer'') =
     Some (JObj [(lit ''v'', JNum 1)])"
  by (simp_all add: answer_event_def event_type_def plain_event_def read_prop_def truthy_def lit_def)

lemma timeout_event_facts:
  "timeout_event \<noteq> JNull" "truthy (read_prop timeout_event ''error'')"
  "read_prop timeout_event ''error'' = Some (JStr (lit ''timeout''))"
  by (simp_all add: timeout_event_def read_prop_def truthy_def lit_def)

lemma ordinary_answer_line: "ordinary JSON_parse (lit answer_line)"
  by (simp add: ordinary_def parse_answer_line plain_event_def)
     (simp add: answer_event_def read_prop_def truthy_def lit_def)

lemma handle_documents_event:
  "handle_data documents_event s =
     Returns (Inr (s\<lparr>currentQuery := Some ((spread (currentQuery s))
        \<lparr>documents := Some (JArr [JObj [(lit ''content'', JStr (lit ''A''))],
                                  JObj [(lit ''content'', JStr (lit ''B''))]]),
         requestedK := Some (JNum 5), effectiveK := Some (JNum 3)\<rparr>)\<rparr>))"
  by (simp add: documents_event_def handle_data_def setCurrentQuery_def upd_documents_def
      read_prop_def truthy_def coalesce_def nullish_def lit_def)

lemma handle_answer_event:
  "handle_data answer_event s =
     Returns (Inr (s\<lparr>currentQuery := Some ((spread (currentQuery s))
        \<lparr>answer := Some (JStr (lit ''done'')),
         structured_answer := Some (JObj [(lit ''v'', JNum 1)])\<rparr>),
        isLoading := False\<rparr>))"
  by (simp add: answer_event_def handle_data_def setCurrentQuery_def upd_answer_def
      read_prop_def truthy_def lit_def)

lemma handle_highlights_event:
  "documents q = Some (JArr [JObj [(lit ''content'', JStr (lit ''A''))],
                             JObj [(lit ''content'', JStr (lit ''B''))]]) \<Longrightarrow>
   \<not> nullish (requestedK q) \<Longrightarrow> \<not> nullish (effectiveK q) \<Longrightarrow>
   handle_data highlights_event (s\<lparr>currentQuery := Some q\<rparr>) =
     Returns (Inr (s\<lparr>currentQuery := Some (q\<lparr>documents := Some highlighted_documents\<rparr>)\<rparr>))"
  apply (cases q)
  apply (simp add: highlights_event_def highlighted_documents_def handle_data_def
        setCurrentQuery_def upd_highlights_def prev_documents_def
        property_key_def ToString_def prototype_names_def own_properties_def or_else_def
        read_prop_def truthy_def coalesce_def nullish_def lit_def)
  done

lemma step_documents_any:
  "process_line JSON_parse (lit documents_line) s =
     Returns (s\<lparr>currentQuery := Some ((spread (currentQuery s))
        \<lparr>documents := Some (JArr [JObj [(lit ''content'', JStr (lit ''A''))],
                                  JObj [(lit ''content'', JStr (lit ''B''))]]),
         requestedK := Some (JNum 5), effectiveK := Some (JNum 3)\<rparr>)\<rparr>)"
  by (simp add: process_line_decoded [where P = JSON_parse, OF not_blank_documents_line parse_documents_line]
      handle_documents_event)

lemma step_answer_any:
  "process_line JSON_parse (lit answer_line) s =
     Returns (s\<lparr>currentQuery := Some ((spread (currentQuery s))
        \<lparr>answer := Some (JStr (lit ''done'')),
         structured_answer := Some (JObj [(lit ''v'', JNum 1)])\<rparr>),
        isLoading := False\<rparr>)"
  by (simp add: process_line_decoded [where P = JSON_parse, OF not_blank_answer_line parse_answer_line]
      handle_answer_event)

lemma step_highlights_after_documents:
  "documents q = Some (JArr [JObj [(lit ''content'', JStr (lit ''A''))],
                             JObj [(lit ''content'', JStr (lit ''B''))]]) \<Longrightarrow>
   \<not> nullish (requestedK q) \<Longrightarrow> \<not> nullish (effectiveK q) \<Longrightarrow>
   process_line JSON_parse (lit highlights_line) (s\<lparr>currentQuery := Some q\<rparr>) =
     Returns (s\<lparr>currentQuery := Some (q\<lparr>documents := Some highlighted_documents\<rparr>)\<rparr>)"
  by (simp add: process_line_decoded [where P = JSON_parse, OF not_blank_highlights_line parse_highlights_line]
      handle_highlights_event)

lemma scenario_lines:
  "process_lines JSON_parse [lit documents_line, lit highlights_line, lit answer_line] (fresh q) =
     Returns
       \<lparr>isLoading = False, error = Some JNull, isResourcesLoaded = True,
        currentQuery = Some
          \<lparr>question = q,
           documents = Some (JArr
             [JObj [(lit ''content'', JStr (lit ''A'')), (lit ''highlights'', JArr [JStr (lit ''x'')])],
              JObj [(lit ''content'', JStr (lit ''B'')), (lit ''highlights'', JArr [])]]),
           answer = Some (JStr (lit ''done'')),
           structured_answer = Some (JObj [(lit ''v'', JNum 1)]),
           streamError = Some JNull,
           requestedK = Some (JNum 5),
           effectiveK = Some (JNum 3)\<rparr>,
        numDocs = 20\<rparr>"
  by (simp add: step_documents_any step_highlights_after_documents step_answer_any nullish_def)
     (simp add: fresh_def initial_query_def highlighted_documents_def)

lemma frames_of_answer:
  "emitted_lines [answer_line] = ([], Some (lit answer_line))"
  by (simp add: answer_line_def framer_defs lit_def)

lemma frames_of_scenario:
  "frame_all new_framer
     [documents_line @ [CHR 0x0A] @ take 10 highlights_line,
      drop 10 highlights_line @ [CHR 0x0A] @ answer_line @ [CHR 0x0A]] =
   ([lit documents_line, lit highlights_line, lit answer_line],
    \<lparr>decoder = \<lparr>utf8 = utf8_initial, bom_seen = True\<rparr>, buffer = []\<rparr>)"
  by (simp add: documents_line_def highlights_line_def answer_line_def framer_defs lit_def)

lemma emitted_lines_of_scenario:
  "emitted_lines
     [documents_line @ [CHR 0x0A] @ take 10 highlights_line,
      drop 10 highlights_line @ [CHR 0x0A] @ answer_line @ [CHR 0x0A]] =
   ([lit documents_line, lit highlights_line, lit answer_line], None)"
  unfolding emitted_lines_def frames_of_scenario
  by (simp add: not_blank_documents_line not_blank_highlights_line not_blank_answer_line)
    (simp add: blank_def)

lemma flushed_timeout:
  "final_flush JSON_parse (lit timeout_line) (fresh q) =
     Returns ((fresh q)
       \<lparr>error := Some (JStr (lit ''timeout'')),
        currentQuery := Some ((initial_query q)\<lparr>streamError := Some (JStr (lit ''timeout''))\<rparr>),
        isLoading := False\<rparr>)"
  by (simp add: final_flush_decoded [where P = JSON_parse, OF not_blank_lines(1) parse_timeout_line])
     (simp add: timeout_event_def final_data_def read_prop_def truthy_def lit_def record_error_def
        with_streamError_def fresh_def Let_def)

lemma flush_answer:
  "final_flush JSON_parse (lit answer_line) s = Returns (s\<lparr>isLoading := False\<rparr>)"
  by (simp add: final_flush_decoded [where P = JSON_parse, OF not_blank_answer_line parse_answer_line])
     (simp add: answer_event_def final_data_def read_prop_def truthy_def lit_def)

lemma unterminated_answer_through_submitQuery:
  "submitQuery JSON_parse (\<lambda>req. Resolved unterminated_answer_response) captured q idle =
     ([\<lparr>request_question = q, request_num_docs = 20\<rparr>],
      Returns (captured, (fresh q)\<lparr>isLoading := False\<rparr>))"
proof -
  have s1: "idle\<lparr>isLoading := True, error := Some JNull, currentQuery := Some (initial_query q)\<rparr> = fresh q"
    by (simp add: idle_def fresh_def)
  have i: "isResourcesLoaded idle" "numDocs idle = 20"
    by (simp_all add: idle_def)
  have r: "response_ok unterminated_answer_response"
    "body unterminated_answer_response = Some [answer_line]"
    "read_failure unterminated_answer_response = None"
    by (simp_all add: unterminated_answer_response_def response_ok_def)
  have c: "consume_response JSON_parse unterminated_answer_response (fresh q) =
      Returns (None, (fresh q)\<lparr>isLoading := False\<rparr>)"
    by (simp only: consume_response_emitted [OF r(1,2)] r(3) frames_of_answer fst_conv snd_conv)
       (simp add: flush_answer)
  show ?thesis
    unfolding submitQuery_def Let_def
    by (simp only: i s1 c fetch_result.case, simp add: settle_def)
qed

lemma decimal_503: "decimal 503 = lit ''503''"
  by (simp add: decimal.simps lit_def)

text \<open>
  \<open>JSON.parse\<close> of the \<open>JSON.stringify\<close> of a string is that string: a line that was
  serialised once more parses, at the first attempt, to a string.
\<close>

lemma hex_value_hex_digit: "d < 16 \<Longrightarrow> hex_value (hex_digit d) = Some d"
  by (auto simp: hex_value_def hex_digit_def)

lemma map_option_append_Nil: "map_option ((@) []) m = m"
  by (cases m) simp_all

lemma lex_quote_unit:
  "scan (InString acc) (quote_unit c @ rest) = scan (InString (acc @ [c])) rest"
proof -
  consider (esc) "c = 0x08 \<or> c = 0x09 \<or> c = 0x0A \<or> c = 0x0C \<or> c = 0x0D \<or> c = 0x22 \<or> c = 0x5C"
    | (ctl) "c < 0x20" "c \<noteq> 0x08" "c \<noteq> 0x09" "c \<noteq> 0x0A" "c \<noteq> 0x0C" "c \<noteq> 0x0D"
    | (plain) "\<not> c < 0x20" "c \<noteq> 0x22" "c \<noteq> 0x5C"
    by blast
  then show ?thesis
  proof cases
    case esc
    then show ?thesis
      by (auto simp: quote_unit_def lex_step_def map_option_append_Nil)
  next
    case ctl
    then have d: "c div 16 < 16" "c mod 16 < 16" "16 * (c div 16) + c mod 16 = c"
      by simp_all
    from ctl have q: "quote_unit c = [0x5C, 0x75, 0x30, 0x30, hex_digit (c div 16), hex_digit (c mod 16)]"
      by (simp add: quote_unit_def)
    have z: "hex_value 0x30 = Some 0"
      by (simp add: hex_value_def)
    show ?thesis
      by (simp add: q lex_step_def z hex_value_hex_digit d map_option_append_Nil)
  next
    case plain
    then show ?thesis
      by (simp add: quote_unit_def lex_step_def map_option_append_Nil)
  qed
qed

lemma lex_quoted_body:
  "scan (InString acc) (concat (map quote_unit x) @ [0x22]) = Some [TString (acc @ x)]"
proof (induction x arbitrary: acc)
  case Nil
  show ?case by (simp add: lex_step_def)
next
  case (Cons c x)
  have "scan (InString acc) (concat (map quote_unit (c # x)) @ [0x22]) =
      scan (InString acc) (quote_unit c @ (concat (map quote_unit x) @ [0x22]))"
    by simp
  also have "\<dots> = scan (InString (acc @ [c])) (concat (map quote_unit x) @ [0x22])"
    by (rule lex_quote_unit)
  also have "\<dots> = Some [TString ((acc @ [c]) @ x)]"
    by (rule Cons.IH)
  finally show ?case by simp
qed

lemma parse_stringified: "JSON_parse (JSON_stringify_string x) = Inr (JStr x)"
proof -
  have "scan Idle (JSON_stringify_string x) = Some [TString x]"
    using lex_quoted_body [of "[]" x]
    by (simp add: JSON_stringify_string_def lex_step_def lex_idle_def map_option_append_Nil)
  then show ?thesis
    by (simp add: JSON_parse_def pstep_def value_start_def scalar_def complete_def)
qed

lemma not_blank_stringified: "\<not> blank (JSON_stringify_string x)"
  by (simp add: JSON_stringify_string_def blank_def is_space_def)

lemma double_encoded_always_ignored:
  "decode_line JSON_parse (JSON_stringify_string x) = Returns (Inr (JStr x)) \<and>
   process_line JSON_parse (JSON_stringify_string x) s = Returns s"
  by (simp add: decode_line_is_parse parse_stringified
      process_line_decoded [where P = JSON_parse, OF not_blank_stringified parse_stringified]
      string_value_is_ignored)

section \<open>The properties of the specification\<close>

subsection \<open>The scenario of documents, highlights and answer\<close>

text \<open>
  \<^bold>\<open>C1.\<close> The three lines of the scenario (a documents event with \<open>requested_k\<close> 5 and
  \<open>effective_k\<close> 3, a highlights event for the content \<open>A\<close>, an answer event with
  \<open>done\<close>), taken in this order from the freshly initialised query result, leave the
  documents \<open>A\<close> with the highlight \<open>x\<close> and \<open>B\<close> with no highlight, in this order,
  \<open>requestedK\<close> 5, \<open>effectiveK\<close> 3, the answer \<open>done\<close>, the structured answer
  \<open>{v: 1}\<close>, no loading and no stream error. A response that delivers these lines, each
  ended by a line feed, in two chunks cut inside the second line, makes \<open>submitQuery\<close>
  end in exactly this state.
\<close>

theorem scenario_documents_highlights_answer:
  "process_lines JSON_parse [lit documents_line, lit highlights_line, lit answer_line] (fresh q) =
     Returns
       \<lparr>isLoading = False, error = Some JNull, isResourcesLoaded = True,
        currentQuery = Some
          \<lparr>question = q,
           documents = Some (JArr
             [JObj [(lit ''content'', JStr (lit ''A'')), (lit ''highlights'', JArr [JStr (lit ''x'')])],
              JObj [(lit ''content'', JStr (lit ''B'')), (lit ''highlights'', JArr [])]]),
           answer = Some (JStr (lit ''done'')),
           structured_answer = Some (JObj [(lit ''v'', JNum 1)]),
           streamError = Some JNull,
           requestedK = Some (JNum 5),
           effectiveK = Some (JNum 3)\<rparr>,
        numDocs = 20\<rparr>
   \<and> submitQuery JSON_parse (\<lambda>req. Resolved scenario_response) captured q idle =
       ([\<lparr>request_question = q, request_num_docs = 20\<rparr>],
        map_outcome (Pair captured)
          (process_lines JSON_parse [lit documents_line, lit highlights_line, lit answer_line]
             (fresh q)))"
proof -
  have s1: "idle\<lparr>isLoading := True, error := Some JNull, currentQuery := Some (initial_query q)\<rparr> = fresh q"
    by (simp add: idle_def fresh_def)
  have i: "isResourcesLoaded idle" "numDocs idle = 20"
    by (simp_all add: idle_def)
  have r: "response_ok scenario_response"
    "body scenario_response =
       Some [documents_line @ [CHR 0x0A] @ take 10 highlights_line,
             drop 10 highlights_line @ [CHR 0x0A] @ answer_line @ [CHR 0x0A]]"
    "read_failure scenario_response = None"
    by (simp_all add: scenario_response_def response_ok_def)
  have c: "consume_response JSON_parse scenario_response (fresh q) =
      map_outcome (Pair None)
        (process_lines JSON_parse [lit documents_line, lit highlights_line, lit answer_line] (fresh q))"
    by (simp only: consume_response_emitted [OF r(1,2)] r(3) emitted_lines_of_scenario
          fst_conv snd_conv scenario_lines)
       simp
  have "submitQuery JSON_parse (\<lambda>req. Resolved scenario_response) captured q idle =
       ([\<lparr>request_question = q, request_num_docs = 20\<rparr>],
        map_outcome (Pair captured)
          (process_lines JSON_parse [lit documents_line, lit highlights_line, lit answer_line]
             (fresh q)))"
    unfolding submitQuery_def Let_def
    by (simp only: i s1 c fetch_result.case scenario_lines, simp add: settle_def)
  with scenario_lines [of q] show ?thesis
    by simp
qed

subsection \<open>The remaining buffer\<close>

text \<open>
  \<^bold>\<open>C2.\<close> The specification has the line flushed at the end of the stream merged as any
  other line. The code does not: the block that handles the remaining buffer records an
  error and clears the loading flag, and applies no merge. When the answer line of the
  scenario is the whole response and no line feed ends it, the framer keeps it for the
  flush, the flush clears the loading flag, and \<open>submitQuery\<close> ends with \<open>answer\<close> and
  \<open>structured_answer\<close> \<open>null\<close>; the same line met inside the stream sets both.
\<close>

theorem flushed_answer_is_not_merged:
  "emitted_lines [answer_line] = ([], Some (lit answer_line))
   \<and> final_flush JSON_parse (lit answer_line) (fresh q) = Returns ((fresh q)\<lparr>isLoading := False\<rparr>)
   \<and> submitQuery JSON_parse (\<lambda>req. Resolved unterminated_answer_response) captured q idle =
       ([\<lparr>request_question = q, request_num_docs = 20\<rparr>],
        Returns (captured, (fresh q)\<lparr>isLoading := False\<rparr>))
   \<and> answer (query ((fresh q)\<lparr>isLoading := False\<rparr>)) = Some JNull
   \<and> structured_answer (query ((fresh q)\<lparr>isLoading := False\<rparr>)) = Some JNull
   \<and> process_line JSON_parse (lit answer_line) (fresh q) =
       Returns ((fresh q)
         \<lparr>currentQuery := Some ((initial_query q)
            \<lparr>answer := Some (JStr (lit ''done'')),
             structured_answer := Some (JObj [(lit ''v'', JNum 1)])\<rparr>),
          isLoading := False\<rparr>)"
proof -
  have "process_line JSON_parse (lit answer_line) (fresh q) =
       Returns ((fresh q)
         \<lparr>currentQuery := Some ((initial_query q)
            \<lparr>answer := Some (JStr (lit ''done'')),
             structured_answer := Some (JObj [(lit ''v'', JNum 1)])\<rparr>),
          isLoading := False\<rparr>)"
    by (simp add: step_answer_any) (simp add: fresh_def)
  moreover have "answer (query ((fresh q)\<lparr>isLoading := False\<rparr>)) = Some JNull"
    "structured_answer (query ((fresh q)\<lparr>isLoading := False\<rparr>)) = Some JNull"
    by (simp_all add: query_def fresh_def initial_query_def)
  ultimately show ?thesis
    using frames_of_answer flush_answer [of "fresh q"]
      unterminated_answer_through_submitQuery [of captured q]
    by simp
qed

subsection \<open>A response that is not ok\<close>

text \<open>
  \<^bold>\<open>C3.\<close> When the resources are loaded and \<open>fetch\<close> resolves to a response whose status is
  outside 200 to 299, \<open>submitQuery\<close> issues this one request, reads no line (the result
  depends neither on the body nor on the parser), returns \<open>null\<close>, clears the loading flag
  and surfaces the message made of the status and the status text. The query result is
  not unset: it is the initial one, with the same message as its \<open>streamError\<close>.
\<close>

theorem bad_status_aborts:
  assumes "isResourcesLoaded s"
    and "fetch \<lparr>request_question = q, request_num_docs = numDocs s\<rparr> = Resolved r"
    and "\<not> response_ok r"
  shows "submitQuery P fetch captured q s =
    ([\<lparr>request_question = q, request_num_docs = numDocs s\<rparr>],
     Returns (None,
       s\<lparr>isLoading := False,
          error := Some (JStr (lit ''Server responded with '' @ decimal (status r) @ lit '': '' @ statusText r)),
          currentQuery := Some ((initial_query q)
            \<lparr>streamError := Some (JStr (lit ''Server responded with '' @ decimal (status r) @ lit '': '' @ statusText r))\<rparr>)\<rparr>))"
  using assms
  by (simp add: submitQuery_def consume_response_def settle_def Let_def with_streamError_def)

text \<open>The status 503 with the status text \<open>Service Unavailable\<close>.\<close>

theorem bad_status_aborts_witness:
  "isResourcesLoaded idle \<and> \<not> response_ok unavailable
   \<and> submitQuery JSON_parse (\<lambda>r. Resolved unavailable) None the_question idle =
       ([\<lparr>request_question = the_question, request_num_docs = 20\<rparr>],
        Returns (None,
          idle\<lparr>isLoading := False,
               error := Some (JStr (lit ''Server responded with 503: Service Unavailable'')),
               currentQuery := Some ((initial_query the_question)
                 \<lparr>streamError :=
                    Some (JStr (lit ''Server responded with 503: Service Unavailable''))\<rparr>)\<rparr>))"
proof -
  have a: "isResourcesLoaded idle" by (simp add: idle_def)
  have b: "(\<lambda>r. Resolved unavailable) \<lparr>request_question = the_question, request_num_docs = numDocs idle\<rparr> =
      Resolved unavailable" by simp
  have c: "\<not> response_ok unavailable" by (simp add: response_ok_def unavailable_def)
  have n: "numDocs idle = 20" by (simp add: idle_def)
  have m: "lit ''Server responded with '' @ decimal (status unavailable) @ lit '': '' @ statusText unavailable =
      lit ''Server responded with 503: Service Unavailable''"
    by (simp add: unavailable_def decimal_503) (simp add: lit_def)
  from bad_status_aborts [where P = JSON_parse and captured = None, OF a b c] a c
  show ?thesis by (simp only: n m) simp
qed

text \<open>
  After the status 503 the query result is an object, the initial one with its
  \<open>streamError\<close> set, and not \<open>null\<close>.
\<close>

theorem bad_status_keeps_query_result:
  "map_outcome (\<lambda>x. currentQuery (snd x))
     (snd (submitQuery JSON_parse (\<lambda>r. Resolved unavailable) None the_question idle)) =
   Returns (Some ((initial_query the_question)
     \<lparr>streamError := Some (JStr (lit ''Server responded with 503: Service Unavailable''))\<rparr>))"
  by (simp add: submitQuery_def consume_response_def settle_def Let_def with_streamError_def
      idle_def unavailable_def response_ok_def decimal_503)
     (simp add: lit_def)

subsection \<open>A malformed line\<close>

text \<open>
  \<^bold>\<open>C4.\<close> Let a line that is not blank and that \<open>JSON.parse\<close> refuses stand anywhere among
  other lines. Processing does not stop at it: the lines before it are processed, the
  line records \<open>stream_parse_error: \<close> followed by the reason as \<open>streamError\<close> and as
  the error, and the lines after it are processed from that state. The loading flag and
  every field of the query result but \<open>streamError\<close> end as they end without the
  malformed line. When the lines after it record no error themselves, the parse error is
  the \<open>streamError\<close> and the error at the end.
\<close>

theorem malformed_line_recorded_and_skipped:
  assumes "P bad = Inl e" and "\<not> blank bad"
  shows
    "process_lines P (pre @ bad # post) s =
       and_then (process_lines P pre s)
         (\<lambda>s1. process_lines P post (parse_failed ''stream_parse_error: '' e s1))
     \<and> (\<forall>s1. streamError (query (parse_failed ''stream_parse_error: '' e s1)) =
               Some (JStr (lit ''stream_parse_error: '' @ describe e)) \<and>
             error (parse_failed ''stream_parse_error: '' e s1) =
               Some (JStr (lit ''stream_parse_error: '' @ describe e)))
     \<and> map_outcome merged (process_lines P (pre @ bad # post) s) =
         map_outcome merged (process_lines P (pre @ post) s)
     \<and> (list_all (ordinary P) post \<and> process_lines P (pre @ bad # post) s = Returns s' \<longrightarrow>
          streamError (query s') = Some (JStr (lit ''stream_parse_error: '' @ describe e)) \<and>
          error s' = Some (JStr (lit ''stream_parse_error: '' @ describe e)))"
proof -
  have run: "process_lines P (pre @ bad # post) s =
       and_then (process_lines P pre s)
         (\<lambda>s1. process_lines P post (parse_failed ''stream_parse_error: '' e s1))"
    using assms by (simp add: process_lines_append process_line_undecodable)
  have same: "map_outcome merged (process_lines P post (parse_failed ''stream_parse_error: '' e s1)) =
      map_outcome merged (process_lines P post s1)" for s1
    by (rule merged_process_lines) simp
  have eff: "map_outcome merged (process_lines P (pre @ bad # post) s) =
         map_outcome merged (process_lines P (pre @ post) s)"
    unfolding run by (simp add: process_lines_append map_outcome_and_then same)
  have kept: "streamError (query s') = Some (JStr (lit ''stream_parse_error: '' @ describe e)) \<and>
          error s' = Some (JStr (lit ''stream_parse_error: '' @ describe e))"
    if "list_all (ordinary P) post" "process_lines P (pre @ bad # post) s = Returns s'"
  proof -
    from that(2) obtain s1 where
      "process_lines P post (parse_failed ''stream_parse_error: '' e s1) = Returns s'"
      by (auto simp: run and_then_eq_Returns)
    from ordinary_lines_keep_error [OF that(1) this] show ?thesis by simp
  qed
  from run eff kept show ?thesis by simp
qed

text \<open>
  The documents line, a line cut after its first comma, and the answer line: the documents
  and the answer are merged, and the parse error is recorded.
\<close>

theorem malformed_line_recorded_and_skipped_witness:
  "JSON_parse (lit malformed_line) = Inl syntax_error \<and> \<not> blank (lit malformed_line)
   \<and> list_all (ordinary JSON_parse) [lit answer_line]
   \<and> process_lines JSON_parse [lit documents_line, lit malformed_line, lit answer_line]
        (fresh the_question) =
       Returns
         \<lparr>isLoading = False,
          error = Some (JStr (lit ''stream_parse_error: Unexpected token in JSON'')),
          isResourcesLoaded = True,
          currentQuery = Some
            \<lparr>question = the_question,
             documents = Some (JArr [JObj [(lit ''content'', JStr (lit ''A''))],
                                     JObj [(lit ''content'', JStr (lit ''B''))]]),
             answer = Some (JStr (lit ''done'')),
             structured_answer = Some (JObj [(lit ''v'', JNum 1)]),
             streamError = Some (JStr (lit ''stream_parse_error: Unexpected token in JSON'')),
             requestedK = Some (JNum 5),
             effectiveK = Some (JNum 3)\<rparr>,
          numDocs = 20\<rparr>
   \<and> map_outcome merged
        (process_lines JSON_parse [lit documents_line, lit malformed_line, lit answer_line]
           (fresh the_question)) =
       map_outcome merged
        (process_lines JSON_parse [lit documents_line, lit answer_line] (fresh the_question))"
proof -
  have o: "list_all (ordinary JSON_parse) [lit answer_line]"
    by (simp add: ordinary_answer_line)
  have msg: "lit ''stream_parse_error: '' @ describe syntax_error =
      lit ''stream_parse_error: Unexpected token in JSON''"
    by (simp add: describe_def syntax_error_def lit_def)
  have l: "[lit documents_line] @ lit malformed_line # [lit answer_line] =
      [lit documents_line, lit malformed_line, lit answer_line]"
    "[lit documents_line] @ [lit answer_line] = [lit documents_line, lit answer_line]"
    by simp_all
  note t = malformed_line_recorded_and_skipped
    [where P = JSON_parse and pre = "[lit documents_line]" and post = "[lit answer_line]"
       and s = "fresh the_question",
     OF parse_malformed_line not_blank_lines(2), unfolded l]
  have run: "process_lines JSON_parse [lit documents_line, lit malformed_line, lit answer_line]
        (fresh the_question) =
      and_then (process_lines JSON_parse [lit documents_line] (fresh the_question))
        (\<lambda>s1. process_lines JSON_parse [lit answer_line]
           (parse_failed ''stream_parse_error: '' syntax_error s1))"
    by (rule t [THEN conjunct1])
  have eff: "map_outcome merged
        (process_lines JSON_parse [lit documents_line, lit malformed_line, lit answer_line]
           (fresh the_question)) =
       map_outcome merged
        (process_lines JSON_parse [lit documents_line, lit answer_line] (fresh the_question))"
    by (rule t [THEN conjunct2, THEN conjunct2, THEN conjunct1])
  have "process_lines JSON_parse [lit documents_line, lit malformed_line, lit answer_line]
        (fresh the_question) =
       Returns
         \<lparr>isLoading = False,
          error = Some (JStr (lit ''stream_parse_error: Unexpected token in JSON'')),
          isResourcesLoaded = True,
          currentQuery = Some
            \<lparr>question = the_question,
             documents = Some (JArr [JObj [(lit ''content'', JStr (lit ''A''))],
                                     JObj [(lit ''content'', JStr (lit ''B''))]]),
             answer = Some (JStr (lit ''done'')),
             structured_answer = Some (JObj [(lit ''v'', JNum 1)]),
             streamError = Some (JStr (lit ''stream_parse_error: Unexpected token in JSON'')),
             requestedK = Some (JNum 5),
             effectiveK = Some (JNum 3)\<rparr>,
          numDocs = 20\<rparr>"
    unfolding run
    by (simp add: step_documents_any step_answer_any parse_failed_def record_error_def
        with_streamError_def msg)
       (simp add: fresh_def initial_query_def)
  with o eff parse_malformed_line not_blank_lines(2) show ?thesis by simp
qed

subsection \<open>A line that was serialised twice\<close>

text \<open>
  \<^bold>\<open>C5.\<close> The specification has a line and its double-encoded form decode to the same
  event. The code does not: the double-encoded form is a JSON string literal, which the
  first \<open>JSON.parse\<close> accepts, so that the fallback for quoted lines is not entered and
  the decoded value is a string. A string has no \<open>error\<close> and no \<open>type\<close>: the line is
  ignored. For the answer line of the scenario, the line itself sets the answer and its
  double-encoded form leaves the state as it was.
\<close>

theorem double_encoded_line_is_ignored:
  "decode_line JSON_parse (lit answer_line) = Returns (Inr answer_event)
   \<and> decode_line JSON_parse (JSON_stringify_string (lit answer_line)) =
       Returns (Inr (JStr (lit answer_line)))
   \<and> process_line JSON_parse (JSON_stringify_string (lit answer_line)) (fresh q) = Returns (fresh q)
   \<and> process_line JSON_parse (lit answer_line) (fresh q) =
       Returns ((fresh q)
         \<lparr>currentQuery := Some ((initial_query q)
            \<lparr>answer := Some (JStr (lit ''done'')),
             structured_answer := Some (JObj [(lit ''v'', JNum 1)])\<rparr>),
          isLoading := False\<rparr>)"
proof -
  have "process_line JSON_parse (lit answer_line) (fresh q) =
       Returns ((fresh q)
         \<lparr>currentQuery := Some ((initial_query q)
            \<lparr>answer := Some (JStr (lit ''done'')),
             structured_answer := Some (JObj [(lit ''v'', JNum 1)])\<rparr>),
          isLoading := False\<rparr>)"
    by (simp add: step_answer_any) (simp add: fresh_def)
  then show ?thesis
    by (simp add: decode_line_is_parse parse_answer_line parse_stringified
        double_encoded_always_ignored)
qed

subsection \<open>The chunk boundaries\<close>

text \<open>
  \<^bold>\<open>C6.\<close> Two partitions of the same bytes into chunks, cut at any byte (inside a line or
  inside the UTF-8 sequence of one code point), make the framer emit the same non-blank
  complete lines in the same order, and the same final unterminated line, if there is one.
\<close>

theorem framing_chunk_invariant:
  "concat cs = concat cs' \<Longrightarrow> emitted_lines cs = emitted_lines cs'"
  by (simp only: emitted_lines_whole)

theorem framing_chunk_invariant_witness:
  "concat [[CHR 0xC3], [CHR 0xA9, CHR 0x0A], [CHR 0x62]] =
     concat [[CHR 0xC3, CHR 0xA9, CHR 0x0A, CHR 0x62]]
   \<and> emitted_lines [[CHR 0xC3], [CHR 0xA9, CHR 0x0A], [CHR 0x62]] = ([[0xE9]], Some [0x62])
   \<and> emitted_lines [[CHR 0xC3, CHR 0xA9, CHR 0x0A, CHR 0x62]] = ([[0xE9]], Some [0x62])"
proof -
  have c: "concat [[CHR 0xC3], [CHR 0xA9, CHR 0x0A], [CHR 0x62]] =
      concat [[CHR 0xC3, CHR 0xA9, CHR 0x0A, CHR 0x62]]"
    by simp
  have e: "emitted_lines [[CHR 0xC3, CHR 0xA9, CHR 0x0A, CHR 0x62]] = ([[0xE9]], Some [0x62])"
    by (simp add: framer_defs)
  show ?thesis
    using framing_chunk_invariant [OF c] c e by simp
qed

subsection \<open>\<open>requestedK\<close> and \<open>effectiveK\<close>\<close>

text \<open>
  \<^bold>\<open>C7.\<close> Let the handling of a decoded value return. A documents or highlights event (a
  value that is not \<open>null\<close>, whose \<open>error\<close> is not truthy and whose type is one of the
  two) that carries a \<open>requested_k\<close> other than \<open>null\<close> sets \<open>requestedK\<close> to it, and
  likewise \<open>effective_k\<close> and \<open>effectiveK\<close>. Every other value, an answer event and an
  error event among them, leaves both as they were, whether it carries the fields or not.
  Once \<open>requestedK\<close> is set (neither \<open>undefined\<close> nor \<open>null\<close>), a value that omits
  \<open>requested_k\<close> leaves it as it was, and likewise \<open>effectiveK\<close>.
\<close>

theorem k_set_by_documents_or_highlights_and_retained:
  assumes "handle_data d s = Returns (Inr s')"
  shows
    "(event_type d ''documents'' \<or> event_type d ''highlights'' \<longrightarrow>
        (\<not> nullish (read_prop d ''requested_k'') \<longrightarrow>
           requestedK (query s') = read_prop d ''requested_k'') \<and>
        (\<not> nullish (read_prop d ''effective_k'') \<longrightarrow>
           effectiveK (query s') = read_prop d ''effective_k''))
     \<and> (\<not> (event_type d ''documents'' \<or> event_type d ''highlights'') \<longrightarrow>
          requestedK (query s') = requestedK (query s) \<and>
          effectiveK (query s') = effectiveK (query s))
     \<and> (nullish (read_prop d ''requested_k'') \<and> \<not> nullish (requestedK (query s)) \<longrightarrow>
          requestedK (query s') = requestedK (query s))
     \<and> (nullish (read_prop d ''effective_k'') \<and> \<not> nullish (effectiveK (query s)) \<longrightarrow>
          effectiveK (query s') = effectiveK (query s))"
  using assms
proof (cases rule: handle_data_cases)
  case err
  then show ?thesis
    by (simp add: event_type_def plain_event_def query_def record_error_def with_streamError_def)
next
  case documents
  then show ?thesis
    by (simp add: event_type_def plain_event_def query_def upd_documents_fields coalesce_def)
next
  case (highlights q')
  then show ?thesis
    using upd_highlights_fields [of d "currentQuery s" q']
    by (simp add: event_type_def plain_event_def query_def coalesce_def)
next
  case (answer q')
  then show ?thesis
    using upd_answer_fields [of d "currentQuery s" q']
    by (simp add: event_type_def plain_event_def query_def lit_def)
next
  case other
  then show ?thesis
    by (simp add: event_type_def)
qed

text \<open>
  The documents event of the scenario sets \<open>requestedK\<close> to 5; the answer event, which
  omits the field, leaves the 5 in place.
\<close>

theorem k_set_by_documents_or_highlights_and_retained_witness:
  "handle_data documents_event (fresh the_question) =
     Returns (Inr ((fresh the_question)\<lparr>currentQuery := Some ((initial_query the_question)
        \<lparr>documents := Some (JArr [JObj [(lit ''content'', JStr (lit ''A''))],
                                  JObj [(lit ''content'', JStr (lit ''B''))]]),
         requestedK := Some (JNum 5), effectiveK := Some (JNum 3)\<rparr>)\<rparr>))
   \<and> event_type documents_event ''documents''
   \<and> requestedK (query ((fresh the_question)\<lparr>currentQuery := Some ((initial_query the_question)
        \<lparr>documents := Some (JArr [JObj [(lit ''content'', JStr (lit ''A''))],
                                  JObj [(lit ''content'', JStr (lit ''B''))]]),
         requestedK := Some (JNum 5), effectiveK := Some (JNum 3)\<rparr>)\<rparr>)) = Some (JNum 5)
   \<and> handle_data answer_event
        ((fresh the_question)\<lparr>currentQuery := Some ((initial_query the_question)
          \<lparr>documents := Some (JArr [JObj [(lit ''content'', JStr (lit ''A''))],
                                    JObj [(lit ''content'', JStr (lit ''B''))]]),
           requestedK := Some (JNum 5), effectiveK := Some (JNum 3)\<rparr>)\<rparr>) =
       Returns (Inr ((fresh the_question)\<lparr>currentQuery := Some ((initial_query the_question)
          \<lparr>documents := Some (JArr [JObj [(lit ''content'', JStr (lit ''A''))],
                                    JObj [(lit ''content'', JStr (lit ''B''))]]),
           requestedK := Some (JNum 5), effectiveK := Some (JNum 3),
           answer := Some (JStr (lit ''done'')),
           structured_answer := Some (JObj [(lit ''v'', JNum 1)])\<rparr>),
          isLoading := False\<rparr>))
   \<and> nullish (read_prop answer_event ''requested_k'')
   \<and> requestedK (query ((fresh the_question)\<lparr>currentQuery := Some ((initial_query the_question)
          \<lparr>documents := Some (JArr [JObj [(lit ''content'', JStr (lit ''A''))],
                                    JObj [(lit ''content'', JStr (lit ''B''))]]),
           requestedK := Some (JNum 5), effectiveK := Some (JNum 3),
           answer := Some (JStr (lit ''done'')),
           structured_answer := Some (JObj [(lit ''v'', JNum 1)])\<rparr>),
          isLoading := False\<rparr>)) = Some (JNum 5)"
proof -
  have h1: "handle_data documents_event (fresh the_question) =
     Returns (Inr ((fresh the_question)\<lparr>currentQuery := Some ((initial_query the_question)
        \<lparr>documents := Some (JArr [JObj [(lit ''content'', JStr (lit ''A''))],
                                  JObj [(lit ''content'', JStr (lit ''B''))]]),
         requestedK := Some (JNum 5), effectiveK := Some (JNum 3)\<rparr>)\<rparr>))"
    by (simp add: handle_documents_event) (simp add: fresh_def)
  have h2: "handle_data answer_event
        ((fresh the_question)\<lparr>currentQuery := Some ((initial_query the_question)
          \<lparr>documents := Some (JArr [JObj [(lit ''content'', JStr (lit ''A''))],
                                    JObj [(lit ''content'', JStr (lit ''B''))]]),
           requestedK := Some (JNum 5), effectiveK := Some (JNum 3)\<rparr>)\<rparr>) =
       Returns (Inr ((fresh the_question)\<lparr>currentQuery := Some ((initial_query the_question)
          \<lparr>documents := Some (JArr [JObj [(lit ''content'', JStr (lit ''A''))],
                                    JObj [(lit ''content'', JStr (lit ''B''))]]),
           requestedK := Some (JNum 5), effectiveK := Some (JNum 3),
           answer := Some (JStr (lit ''done'')),
           structured_answer := Some (JObj [(lit ''v'', JNum 1)])\<rparr>),
          isLoading := False\<rparr>))"
    by (simp add: handle_answer_event)
  from k_set_by_documents_or_highlights_and_retained [OF h1]
    k_set_by_documents_or_highlights_and_retained [OF h2] h1 h2
  show ?thesis
    by (simp add: documents_event_facts answer_event_facts nullish_def)
qed

text \<open>
  An answer event that carries \<open>requested_k\<close> and \<open>effective_k\<close> 7 sets the answer and
  leaves \<open>requestedK\<close> and \<open>effectiveK\<close> \<open>null\<close>.
\<close>

theorem answer_event_does_not_set_k:
  "JSON_parse (lit answer_with_k_line) =
     Inr (JObj
       [(lit ''type'', JStr (lit ''answer'')),
        (lit ''data'', JObj [(lit ''answer'', JStr (lit ''a'')), (lit ''structured_answer'', JNull)]),
        (lit ''requested_k'', JNum 7),
        (lit ''effective_k'', JNum 7)])
   \<and> map_outcome (\<lambda>s. (requestedK (query s), effectiveK (query s), answer (query s)))
        (process_line JSON_parse (lit answer_with_k_line) (fresh the_question)) =
       Returns (Some JNull, Some JNull, Some (JStr (lit ''a'')))"
  by (simp add: parse_answer_with_k_line
        process_line_decoded [where P = JSON_parse, OF not_blank_lines(3) parse_answer_with_k_line])
     (simp add: handle_data_def setCurrentQuery_def upd_answer_def read_prop_def truthy_def
        lit_def fresh_def initial_query_def query_def)

subsection \<open>The \<open>error\<close> field\<close>

text \<open>
  \<^bold>\<open>C8.\<close> A decoded value that is not \<open>null\<close> and whose \<open>error\<close> is truthy is not handled
  by its type: the value of \<open>error\<close> becomes the error and the \<open>streamError\<close>, the
  loading flag is cleared, every other field of the query result is as before, and the
  lines that follow are processed from this state.
\<close>

theorem truthy_error_takes_precedence:
  assumes "d \<noteq> JNull" and "truthy (read_prop d ''error'')"
  shows
    "handle_data d s =
       Returns (Inr (s\<lparr>error := read_prop d ''error'',
                       currentQuery :=
                         Some ((spread (currentQuery s))\<lparr>streamError := read_prop d ''error''\<rparr>),
                       isLoading := False\<rparr>))
     \<and> (\<not> blank l \<and> P l = Inr d \<longrightarrow>
          process_lines P (l # ls) s =
            process_lines P ls
              (s\<lparr>error := read_prop d ''error'',
                 currentQuery :=
                   Some ((spread (currentQuery s))\<lparr>streamError := read_prop d ''error''\<rparr>),
                 isLoading := False\<rparr>))"
  using assms
  by (simp add: handle_data_def record_error_def with_streamError_def process_line_decoded)

text \<open>The line \<open>{"error":"timeout"}\<close>, followed by the answer line.\<close>

theorem truthy_error_takes_precedence_witness:
  "timeout_event \<noteq> JNull \<and> truthy (read_prop timeout_event ''error'')
   \<and> \<not> blank (lit timeout_line) \<and> JSON_parse (lit timeout_line) = Inr timeout_event
   \<and> handle_data timeout_event (fresh the_question) =
       Returns (Inr
         \<lparr>isLoading = False, error = Some (JStr (lit ''timeout'')), isResourcesLoaded = True,
          currentQuery = Some ((initial_query the_question)
            \<lparr>streamError := Some (JStr (lit ''timeout''))\<rparr>),
          numDocs = 20\<rparr>)
   \<and> process_lines JSON_parse [lit timeout_line, lit answer_line] (fresh the_question) =
       Returns
         \<lparr>isLoading = False, error = Some (JStr (lit ''timeout'')), isResourcesLoaded = True,
          currentQuery = Some ((initial_query the_question)
            \<lparr>streamError := Some (JStr (lit ''timeout'')),
             answer := Some (JStr (lit ''done'')),
             structured_answer := Some (JObj [(lit ''v'', JNum 1)])\<rparr>),
          numDocs = 20\<rparr>"
proof -
  note t = truthy_error_takes_precedence
    [where P = JSON_parse and l = "lit timeout_line" and ls = "[lit answer_line]"
       and s = "fresh the_question", OF timeout_event_facts(1,2)]
  have a: "handle_data timeout_event (fresh the_question) =
       Returns (Inr
         \<lparr>isLoading = False, error = Some (JStr (lit ''timeout'')), isResourcesLoaded = True,
          currentQuery = Some ((initial_query the_question)
            \<lparr>streamError := Some (JStr (lit ''timeout''))\<rparr>),
          numDocs = 20\<rparr>)"
    using t [THEN conjunct1] by (simp add: timeout_event_facts fresh_def)
  have b: "process_lines JSON_parse [lit timeout_line, lit answer_line] (fresh the_question) =
       Returns
         \<lparr>isLoading = False, error = Some (JStr (lit ''timeout'')), isResourcesLoaded = True,
          currentQuery = Some ((initial_query the_question)
            \<lparr>streamError := Some (JStr (lit ''timeout'')),
             answer := Some (JStr (lit ''done'')),
             structured_answer := Some (JObj [(lit ''v'', JNum 1)])\<rparr>),
          numDocs = 20\<rparr>"
    using t [THEN conjunct2] not_blank_lines(1) parse_timeout_line
    by (simp add: timeout_event_facts step_answer_any fresh_def)
  from a b timeout_event_facts(1,2) not_blank_lines(1) parse_timeout_line show ?thesis by simp
qed

text \<open>
  A documents event that carries the empty string as its \<open>error\<close> is handled by its type:
  the documents are replaced, no error is recorded and the loading flag stays.
\<close>

theorem empty_error_does_not_take_precedence:
  "JSON_parse (lit empty_error_line) =
     Inr (JObj
       [(lit ''type'', JStr (lit ''documents'')),
        (lit ''data'', JArr [JObj [(lit ''content'', JStr (lit ''A''))]]),
        (lit ''error'', JStr [])])
   \<and> map_outcome (\<lambda>s. (documents (query s), streamError (query s), error s, isLoading s))
        (process_line JSON_parse (lit empty_error_line) (fresh the_question)) =
       Returns (Some (JArr [JObj [(lit ''content'', JStr (lit ''A''))]]), Some JNull, Some JNull, True)"
  by (simp add: parse_empty_error_line
        process_line_decoded [where P = JSON_parse, OF not_blank_lines(4) parse_empty_error_line])
     (simp add: handle_data_def setCurrentQuery_def upd_documents_def read_prop_def truthy_def
        coalesce_def nullish_def lit_def fresh_def initial_query_def query_def)

subsection \<open>The answer\<close>

text \<open>
  \<^bold>\<open>C9.\<close> Let the handling of a decoded value return. An answer event (a value that is not
  \<open>null\<close>, whose \<open>error\<close> is not truthy and whose type is \<open>answer\<close>) sets \<open>answer\<close> and
  \<open>structured_answer\<close>, in one update, to the two fields of its \<open>data\<close>. Every other
  value leaves both as they were. Nothing keeps a second answer event from setting them
  again.
\<close>

theorem answer_written_only_by_answer_event:
  assumes "handle_data d s = Returns (Inr s')"
  shows
    "(event_type d ''answer'' \<longrightarrow>
        answer (query s') = Option.bind (read_prop d ''data'') (\<lambda>x. read_prop x ''answer'') \<and>
        structured_answer (query s') =
          Option.bind (read_prop d ''data'') (\<lambda>x. read_prop x ''structured_answer''))
     \<and> (\<not> event_type d ''answer'' \<longrightarrow>
          answer (query s') = answer (query s) \<and>
          structured_answer (query s') = structured_answer (query s))"
  using assms
proof (cases rule: handle_data_cases)
  case err
  then show ?thesis
    by (simp add: event_type_def plain_event_def query_def record_error_def with_streamError_def)
next
  case documents
  then show ?thesis
    by (simp add: event_type_def plain_event_def query_def upd_documents_fields lit_def)
next
  case (highlights q')
  then show ?thesis
    using upd_highlights_fields [of d "currentQuery s" q']
    by (simp add: event_type_def plain_event_def query_def lit_def)
next
  case (answer q')
  then show ?thesis
    using upd_answer_fields(6) [of d "currentQuery s" q']
    by (auto simp: event_type_def plain_event_def query_def)
next
  case other
  then show ?thesis
    by (simp add: event_type_def)
qed

text \<open>
  The answer event of the scenario sets the answer \<open>done\<close>; the documents event leaves
  the answer as it was.
\<close>

theorem answer_written_only_by_answer_event_witness:
  "handle_data answer_event (fresh the_question) =
     Returns (Inr ((fresh the_question)\<lparr>currentQuery := Some ((initial_query the_question)
        \<lparr>answer := Some (JStr (lit ''done'')),
         structured_answer := Some (JObj [(lit ''v'', JNum 1)])\<rparr>),
        isLoading := False\<rparr>))
   \<and> event_type answer_event ''answer''
   \<and> answer (query ((fresh the_question)\<lparr>currentQuery := Some ((initial_query the_question)
        \<lparr>answer := Some (JStr (lit ''done'')),
         structured_answer := Some (JObj [(lit ''v'', JNum 1)])\<rparr>),
        isLoading := False\<rparr>)) = Some (JStr (lit ''done''))
   \<and> handle_data documents_event (fresh the_question) =
       Returns (Inr ((fresh the_question)\<lparr>currentQuery := Some ((initial_query the_question)
        \<lparr>documents := Some (JArr [JObj [(lit ''content'', JStr (lit ''A''))],
                                  JObj [(lit ''content'', JStr (lit ''B''))]]),
         requestedK := Some (JNum 5), effectiveK := Some (JNum 3)\<rparr>)\<rparr>))
   \<and> \<not> event_type documents_event ''answer''
   \<and> answer (query ((fresh the_question)\<lparr>currentQuery := Some ((initial_query the_question)
        \<lparr>documents := Some (JArr [JObj [(lit ''content'', JStr (lit ''A''))],
                                  JObj [(lit ''content'', JStr (lit ''B''))]]),
         requestedK := Some (JNum 5), effectiveK := Some (JNum 3)\<rparr>)\<rparr>)) =
       answer (query (fresh the_question))"
proof -
  have h1: "handle_data answer_event (fresh the_question) =
     Returns (Inr ((fresh the_question)\<lparr>currentQuery := Some ((initial_query the_question)
        \<lparr>answer := Some (JStr (lit ''done'')),
         structured_answer := Some (JObj [(lit ''v'', JNum 1)])\<rparr>),
        isLoading := False\<rparr>))"
    by (simp add: handle_answer_event) (simp add: fresh_def)
  have h2: "handle_data documents_event (fresh the_question) =
     Returns (Inr ((fresh the_question)\<lparr>currentQuery := Some ((initial_query the_question)
        \<lparr>documents := Some (JArr [JObj [(lit ''content'', JStr (lit ''A''))],
                                  JObj [(lit ''content'', JStr (lit ''B''))]]),
         requestedK := Some (JNum 5), effectiveK := Some (JNum 3)\<rparr>)\<rparr>))"
    by (simp add: handle_documents_event) (simp add: fresh_def)
  from answer_written_only_by_answer_event [OF h1] answer_written_only_by_answer_event [OF h2] h1 h2
  show ?thesis
    by (simp add: documents_event_facts answer_event_facts)
qed

text \<open>A second answer event overwrites the answer and the structured answer of the first.\<close>

theorem second_answer_overwrites:
  "map_outcome (\<lambda>s. (answer (query s), structured_answer (query s)))
     (process_lines JSON_parse [lit answer_line] (fresh the_question)) =
     Returns (Some (JStr (lit ''done'')), Some (JObj [(lit ''v'', JNum 1)]))
   \<and> map_outcome (\<lambda>s. (answer (query s), structured_answer (query s)))
       (process_lines JSON_parse [lit answer_line, lit second_answer_line] (fresh the_question)) =
       Returns (Some (JStr (lit ''other'')), Some (JNum 2))"
  by (simp add: step_answer_any
        process_line_decoded [where P = JSON_parse, OF not_blank_lines(5) parse_second_answer_line])
     (simp add: handle_data_def setCurrentQuery_def upd_answer_def read_prop_def truthy_def
        lit_def fresh_def initial_query_def query_def)

subsection \<open>Resources that are not loaded\<close>

text \<open>
  \<^bold>\<open>C10.\<close> When the resources are not loaded, \<open>submitQuery\<close> issues no request, returns
  \<open>null\<close> and changes nothing but the error, which becomes the message that the resources
  are not loaded: the loading flag and the query result, \<open>null\<close> or not, are as before.
\<close>

theorem resources_not_loaded:
  assumes "\<not> isResourcesLoaded s"
  shows "submitQuery P fetch captured q s =
    ([], Returns (None,
       s\<lparr>error := Some (JStr (lit ''Resources not loaded. Please wait for the system to initialize.''))\<rparr>))"
  using assms by (simp add: submitQuery_def)

text \<open>A session that holds the query result of an earlier question keeps it.\<close>

theorem resources_not_loaded_witness:
  "\<not> isResourcesLoaded ((fresh the_question)\<lparr>isLoading := False, isResourcesLoaded := False\<rparr>)
   \<and> submitQuery JSON_parse (\<lambda>r. Resolved unavailable) None the_question
        ((fresh the_question)\<lparr>isLoading := False, isResourcesLoaded := False\<rparr>) =
       ([], Returns (None,
          \<lparr>isLoading = False,
           error = Some (JStr (lit ''Resources not loaded. Please wait for the system to initialize.'')),
           isResourcesLoaded = False,
           currentQuery = Some (initial_query the_question),
           numDocs = 20\<rparr>))"
proof -
  have a: "\<not> isResourcesLoaded ((fresh the_question)\<lparr>isLoading := False, isResourcesLoaded := False\<rparr>)"
    by simp
  from resources_not_loaded [OF a, of JSON_parse "\<lambda>r. Resolved unavailable" None the_question] a
  show ?thesis by (simp add: fresh_def)
qed

end
